theory Spec2Isabelle
  imports Complex_Main "HOL-Library.List_Lexorder" "HOL-Library.Char_ord"
begin

section \<open>Values\<close>

text \<open>
  A JavaScript \<open>number\<close> is modelled as a real: the arithmetic of the embedding is
  exact, the rounding of IEEE doubles is not represented.  \<open>null\<close> is \<open>None\<close>.
  A timestamp is the string that \<open>new Date().toISOString()\<close> returns; the clock is read
  by the caller of a model function and passed in as \<open>now\<close>.  The Supabase \<open>User\<close> object
  is represented by its \<open>id\<close>, the only field the code reads; \<open>user = None\<close> is the
  signed-out session.
\<close>

type_synonym number = real
type_synonym timestamp = string
type_synonym User = string
type_synonym PostgrestError = string

text \<open>
  \<open>type Rating = 1 | 2 | 3 | 4 | 5\<close> is a compile-time refinement of \<open>number\<close>; \<open>dbToApp\<close>
  casts a database number to it unchecked, so the run-time value is a number.
\<close>

type_synonym Rating = number

section \<open>LocalDateKey\<close>

text \<open>
  A \<open>Date\<close> is represented by what its local-time accessors return: \<open>getFullYear()\<close>,
  \<open>getMonth()\<close> (0 to 11), \<open>getDate()\<close> (1 to 31) and the time of day in milliseconds
  since local midnight.  The conversion from the epoch and the time zone to these
  fields belongs to the JavaScript runtime.
\<close>

record Date =
  getFullYear :: int
  getMonth :: nat
  getDate :: nat
  timeOfDay :: nat

definition isLeapYear :: "int \<Rightarrow> bool" where
  "isLeapYear y = (y mod 4 = 0 \<and> (y mod 100 \<noteq> 0 \<or> y mod 400 = 0))"

definition daysInMonth :: "int \<Rightarrow> nat \<Rightarrow> nat" where
  "daysInMonth y m =
     (if m = 1 then (if isLeapYear y then 29 else 28)
      else if m = 3 \<or> m = 5 \<or> m = 8 \<or> m = 10 then 30 else 31)"

definition validDate :: "Date \<Rightarrow> bool" where
  "validDate d = (getMonth d < 12 \<and> 1 \<le> getDate d
     \<and> getDate d \<le> daysInMonth (getFullYear d) (getMonth d) \<and> timeOfDay d < 86400000)"

text \<open>\<open>String(n)\<close> for an integral number: decimal digits, a minus sign when negative.\<close>

definition digitChar :: "nat \<Rightarrow> char" where
  "digitChar k = ''0123456789'' ! k"

fun stringOfNat :: "nat \<Rightarrow> string" where
  "stringOfNat n =
     (if n < 10 then [digitChar n] else stringOfNat (n div 10) @ [digitChar (n mod 10)])"

declare stringOfNat.simps [simp del]

definition stringOfInt :: "int \<Rightarrow> string" where
  "stringOfInt i = (if i < 0 then CHR ''-'' # stringOfNat (nat (- i)) else stringOfNat (nat i))"

text \<open>\<open>s.padStart(n, c)\<close> with a one-character filler.\<close>

definition padStart :: "nat \<Rightarrow> char \<Rightarrow> string \<Rightarrow> string" where
  "padStart n c s = replicate (n - length s) c @ s"

definition getLocalDateString :: "Date \<Rightarrow> string" where
  "getLocalDateString d =
     (let year = getFullYear d;
          month = padStart 2 CHR ''0'' (stringOfNat (getMonth d + 1));
          day = padStart 2 CHR ''0'' (stringOfNat (getDate d))
      in stringOfInt year @ ''-'' @ month @ ''-'' @ day)"

text \<open>\<open>getTodayString()\<close> is \<open>getLocalDateString\<close> of the clock reading \<open>today\<close>.\<close>

definition getTodayString :: "Date \<Rightarrow> string" where
  "getTodayString today = getLocalDateString today"

definition isLogStale :: "Date \<Rightarrow> string \<Rightarrow> bool" where
  "isLogStale today logDate = (logDate \<noteq> getTodayString today)"

text \<open>
  \<open>d.setDate(d.getDate() - n)\<close>: the runtime normalises a day of month below 1 by
  stepping back through the calendar; the time of day is kept.
\<close>

definition prevDay :: "Date \<Rightarrow> Date" where
  "prevDay d =
     (if 1 < getDate d then d\<lparr>getDate := getDate d - 1\<rparr>
      else if 0 < getMonth d
        then d\<lparr>getMonth := getMonth d - 1,
               getDate := daysInMonth (getFullYear d) (getMonth d - 1)\<rparr>
        else d\<lparr>getFullYear := getFullYear d - 1, getMonth := 11, getDate := 31\<rparr>)"

fun setDateBack :: "nat \<Rightarrow> Date \<Rightarrow> Date" where
  "setDateBack 0 d = d"
| "setDateBack (Suc n) d = setDateBack n (prevDay d)"

section \<open>Data model\<close>

text \<open>
  Several interfaces of the source share field names (\<open>date\<close>, \<open>steps\<close>, the column
  names); the records keep the names and the definitions qualify them where needed.
\<close>

record WeightDataPoint =
  date :: string
  weight :: "number option"

record SevenDayAverages =
  calories :: "number option"
  protein :: "number option"
  steps :: "number option"
  sleep :: "number option"

text \<open>
  The types module declares its own \<open>DailyLog\<close>, with a three-valued \<open>isPeriodDay\<close>
  (\<open>boolean | null\<close>) and no calorie field, and its own \<open>createEmptyDailyLog\<close>.
\<close>

record Types_DailyLog =
  date :: string
  proteinGrams :: number
  carbsGrams :: number
  fatGrams :: number
  sleepHours :: "number option"
  weightLbs :: "number option"
  isPeriodDay :: "bool option"
  steps :: number
  energyRating :: "Rating option"
  hungerRating :: "Rating option"
  motivationRating :: "Rating option"
  createdAt :: timestamp
  updatedAt :: timestamp

definition Types_createEmptyDailyLog :: "timestamp \<Rightarrow> Date \<Rightarrow> Types_DailyLog" where
  "Types_createEmptyDailyLog now d =
     \<lparr> Types_DailyLog.date = getLocalDateString d,
       proteinGrams = 0, carbsGrams = 0, fatGrams = 0,
       sleepHours = None, weightLbs = None, isPeriodDay = None, steps = 0,
       energyRating = None, hungerRating = None, motivationRating = None,
       createdAt = now, updatedAt = now \<rparr>"

text \<open>Database rows as \<open>dbToApp\<close> and \<open>dbGoalsToApp\<close> receive them.\<close>

record DbDailyLog =
  log_date :: string
  protein_grams :: number
  carbs_grams :: number
  fat_grams :: number
  total_calories :: number
  sleep_hours :: "number option"
  weight_lbs :: "number option"
  is_period_day :: bool
  steps :: number
  energy_rating :: "number option"
  hunger_rating :: "number option"
  motivation_rating :: "number option"
  created_at :: timestamp
  updated_at :: timestamp

record DbUserGoals =
  calories_goal :: number
  protein_goal :: number
  carbs_goal :: number
  fat_goal :: number
  steps_goal :: number
  sleep_goal :: number

text \<open>The columns of \<open>profiles\<close> that \<open>loadData\<close> selects.\<close>

record DbProfile =
  age :: "number option"
  height_feet :: "number option"
  height_inches :: "number option"
  cycle_length_days :: "number option"
  period_length_days :: "number option"
  last_period_start :: "string option"

text \<open>
  The \<open>DailyLog\<close> of the application context, the type of the cached record:
  \<open>isPeriodDay\<close> is a \<open>boolean\<close> and the record carries \<open>totalCalories\<close>.
\<close>

record DailyLog =
  date :: string
  proteinGrams :: number
  carbsGrams :: number
  fatGrams :: number
  totalCalories :: number
  sleepHours :: "number option"
  weightLbs :: "number option"
  isPeriodDay :: bool
  steps :: number
  energyRating :: "Rating option"
  hungerRating :: "Rating option"
  motivationRating :: "Rating option"
  createdAt :: timestamp
  updatedAt :: timestamp

record UserGoals =
  caloriesGoal :: number
  proteinGoal :: number
  carbsGoal :: number
  fatGoal :: number
  stepsGoal :: number
  sleepGoal :: number

definition DEFAULT_GOALS :: UserGoals where
  "DEFAULT_GOALS = \<lparr> caloriesGoal = 2000, proteinGoal = 120, carbsGoal = 250,
     fatGoal = 65, stepsGoal = 10000, sleepGoal = 8 \<rparr>"

definition createEmptyDailyLog :: "timestamp \<Rightarrow> Date \<Rightarrow> DailyLog" where
  "createEmptyDailyLog now d =
     \<lparr> date = getLocalDateString d,
       proteinGrams = 0, carbsGrams = 0, fatGrams = 0, totalCalories = 0,
       sleepHours = None, weightLbs = None, isPeriodDay = False, steps = 0,
       energyRating = None, hungerRating = None, motivationRating = None,
       createdAt = now, updatedAt = now \<rparr>"

record UserProfile =
  age :: "number option"
  heightFeet :: "number option"
  heightInches :: "number option"

record CycleSettings =
  cycleLength :: number
  averagePeriodDays :: number
  lastPeriodStartDate :: "string option"

definition calculateCalories :: "number \<Rightarrow> number \<Rightarrow> number \<Rightarrow> number" where
  "calculateCalories p c f = (p * 4) + (c * 4) + (f * 9)"

definition dbToApp :: "DbDailyLog \<Rightarrow> DailyLog" where
  "dbToApp row =
     \<lparr> date = log_date row,
       proteinGrams = protein_grams row,
       carbsGrams = carbs_grams row,
       fatGrams = fat_grams row,
       totalCalories = total_calories row,
       sleepHours = sleep_hours row,
       weightLbs = weight_lbs row,
       isPeriodDay = is_period_day row,
       steps = DbDailyLog.steps row,
       energyRating = energy_rating row,
       hungerRating = hunger_rating row,
       motivationRating = motivation_rating row,
       createdAt = created_at row,
       updatedAt = updated_at row \<rparr>"

definition dbGoalsToApp :: "DbUserGoals \<Rightarrow> UserGoals" where
  "dbGoalsToApp row =
     \<lparr> caloriesGoal = calories_goal row,
       proteinGoal = protein_goal row,
       carbsGoal = carbs_goal row,
       fatGoal = fat_goal row,
       stepsGoal = steps_goal row,
       sleepGoal = sleep_goal row \<rparr>"

section \<open>PersistenceGateway\<close>

text \<open>
  The \<open>daily_logs\<close> table, with the columns the code writes in its upsert.  The schema
  is not part of the repository: a column is nullable here when the code tests it for
  \<open>null\<close> (the aggregate queries test the calorie, protein, step and sleep columns).
  The payload of an upsert is a row whose values are present.
\<close>

record DailyLogsRow =
  user_id :: User
  log_date :: string
  protein_grams :: "number option"
  carbs_grams :: "number option"
  fat_grams :: "number option"
  total_calories :: "number option"
  sleep_hours :: "number option"
  weight_lbs :: "number option"
  is_period_day :: bool
  steps :: "number option"
  energy_rating :: "number option"
  hunger_rating :: "number option"
  motivation_rating :: "number option"
  updated_at :: timestamp

text \<open>
  The remote store: the rows of \<open>daily_logs\<close>, and whether requests fail at present
  (\<open>outage = Some e\<close> makes every request answer \<open>{ data: null, error: e }\<close>).
\<close>

record Remote =
  daily_logs :: "DailyLogsRow list"
  outage :: "PostgrestError option"

text \<open>The \<open>{ data, error }\<close> object that a request resolves to.\<close>

record 'a Response =
  data :: "'a option"
  error :: "PostgrestError option"

datatype Json = JNum number | JStr string | JUndefined

text \<open>
  The requests that the load path, the mutators and the settings updates send, in the
  order they send them.  (The two aggregate reads are modelled by their answers,
  \<open>selectWeightLogs\<close> and \<open>selectAverageLogs\<close> below.)
\<close>

datatype RemoteCall =
    SelectDailyLog User string
  | SelectUserGoals User
  | SelectProfile User
  | UpsertDailyLog DailyLogsRow
  | UpdateUserGoals User "(string \<times> Json) list"
  | UpdateProfiles User "(string \<times> Json) list"

text \<open>\<open>upsert(row, { onConflict: 'user_id,log_date' })\<close> applied to the table.\<close>

fun upsertRow :: "DailyLogsRow \<Rightarrow> DailyLogsRow list \<Rightarrow> DailyLogsRow list" where
  "upsertRow row [] = [row]"
| "upsertRow row (r # rs) =
     (if user_id r = user_id row \<and> log_date r = log_date row then row # rs
      else r # upsertRow row rs)"

text \<open>
  \<open>.eq('user_id', u).gte('log_date', start).not('weight_lbs', 'is', null)
  .order('log_date', { ascending: true })\<close>; day keys are compared as strings.
\<close>

definition selectWeightLogs :: "Remote \<Rightarrow> User \<Rightarrow> string \<Rightarrow> DailyLogsRow list Response" where
  "selectWeightLogs remote u start =
     (case outage remote of
        Some e \<Rightarrow> \<lparr> data = None, error = Some e \<rparr>
      | None \<Rightarrow>
          \<lparr> data = Some (sort_key log_date
                   (filter (\<lambda>r. user_id r = u \<and> start \<le> log_date r \<and> weight_lbs r \<noteq> None)
                      (daily_logs remote))),
            error = None \<rparr>)"

text \<open>
  \<open>.eq('user_id', u).gte('log_date', start).order('log_date', { ascending: true })\<close>
\<close>

definition selectAverageLogs :: "Remote \<Rightarrow> User \<Rightarrow> string \<Rightarrow> DailyLogsRow list Response" where
  "selectAverageLogs remote u start =
     (case outage remote of
        Some e \<Rightarrow> \<lparr> data = None, error = Some e \<rparr>
      | None \<Rightarrow>
          \<lparr> data = Some (sort_key log_date
                   (filter (\<lambda>r. user_id r = u \<and> start \<le> log_date r) (daily_logs remote))),
            error = None \<rparr>)"

section \<open>DailyLogStore\<close>

text \<open>The state the provider component holds in \<open>useState\<close> cells.\<close>

record AppState =
  todayLog :: DailyLog
  goals :: UserGoals
  profile :: UserProfile
  cycleSettings :: CycleSettings
  isLoading :: bool

text \<open>The initial values of the cells, at the first render.\<close>

definition initialState :: "timestamp \<Rightarrow> Date \<Rightarrow> AppState" where
  "initialState now today =
     \<lparr> todayLog = createEmptyDailyLog now today,
       goals = DEFAULT_GOALS,
       profile = \<lparr> age = None, heightFeet = None, heightInches = None \<rparr>,
       cycleSettings = \<lparr> cycleLength = 28, averagePeriodDays = 5, lastPeriodStartDate = None \<rparr>,
       isLoading = True \<rparr>"

text \<open>
  \<open>saveToSupabase\<close> returns the requests it sends: none without a user, else one upsert.
  Its result is not read by any caller.
\<close>

definition saveToSupabase :: "User option \<Rightarrow> timestamp \<Rightarrow> DailyLog \<Rightarrow> RemoteCall list" where
  "saveToSupabase user now lg =
     (case user of
        None \<Rightarrow> []
      | Some u \<Rightarrow>
          (let total = calculateCalories (proteinGrams lg) (carbsGrams lg) (fatGrams lg)
           in [UpsertDailyLog
                 \<lparr> user_id = u,
                   log_date = DailyLog.date lg,
                   protein_grams = Some (proteinGrams lg),
                   carbs_grams = Some (carbsGrams lg),
                   fat_grams = Some (fatGrams lg),
                   total_calories = Some total,
                   sleep_hours = sleepHours lg,
                   weight_lbs = weightLbs lg,
                   is_period_day = isPeriodDay lg,
                   steps = Some (DailyLog.steps lg),
                   energy_rating = energyRating lg,
                   hunger_rating = hungerRating lg,
                   motivation_rating = motivationRating lg,
                   updated_at = now \<rparr>]))"

datatype MacroType = Protein | Carbs | Fat

datatype RatingType = Energy | Hunger | Motivation

text \<open>
  Each mutator is the updater function it hands to \<open>setTodayLog\<close>, applied to the cached
  record, with the clock reading \<open>now\<close>; the requests of its \<open>saveToSupabase\<close> call are
  returned beside the new state.
\<close>

definition addMacroLog :: "timestamp \<Rightarrow> MacroType \<Rightarrow> number \<Rightarrow> DailyLog \<Rightarrow> DailyLog" where
  "addMacroLog now type grams prev =
     (let newLog =
            (case type of
               Protein \<Rightarrow> prev\<lparr>proteinGrams := proteinGrams prev + grams, updatedAt := now\<rparr>
             | Carbs \<Rightarrow> prev\<lparr>carbsGrams := carbsGrams prev + grams, updatedAt := now\<rparr>
             | Fat \<Rightarrow> prev\<lparr>fatGrams := fatGrams prev + grams, updatedAt := now\<rparr>)
      in newLog\<lparr>totalCalories :=
           calculateCalories (proteinGrams newLog) (carbsGrams newLog) (fatGrams newLog)\<rparr>)"

definition setSleepLog :: "timestamp \<Rightarrow> number \<Rightarrow> DailyLog \<Rightarrow> DailyLog" where
  "setSleepLog now hours prev = prev\<lparr>sleepHours := Some hours, updatedAt := now\<rparr>"

definition setWeightLog :: "timestamp \<Rightarrow> number \<Rightarrow> DailyLog \<Rightarrow> DailyLog" where
  "setWeightLog now lbs prev = prev\<lparr>weightLbs := Some lbs, updatedAt := now\<rparr>"

definition setPeriodDayLog :: "timestamp \<Rightarrow> bool \<Rightarrow> DailyLog \<Rightarrow> DailyLog" where
  "setPeriodDayLog now isPeriod prev = prev\<lparr>isPeriodDay := isPeriod, updatedAt := now\<rparr>"

definition setRatingLog :: "timestamp \<Rightarrow> RatingType \<Rightarrow> Rating option \<Rightarrow> DailyLog \<Rightarrow> DailyLog" where
  "setRatingLog now type v prev =
     (case type of
        Energy \<Rightarrow> prev\<lparr>energyRating := v, updatedAt := now\<rparr>
      | Hunger \<Rightarrow> prev\<lparr>hungerRating := v, updatedAt := now\<rparr>
      | Motivation \<Rightarrow> prev\<lparr>motivationRating := v, updatedAt := now\<rparr>)"

definition setStepsLog :: "timestamp \<Rightarrow> number \<Rightarrow> DailyLog \<Rightarrow> DailyLog" where
  "setStepsLog now n prev = prev\<lparr>DailyLog.steps := n, updatedAt := now\<rparr>"

definition commitLog :: "User option \<Rightarrow> timestamp \<Rightarrow> DailyLog \<Rightarrow> AppState \<Rightarrow> AppState \<times> RemoteCall list" where
  "commitLog user now newLog s = (s\<lparr>todayLog := newLog\<rparr>, saveToSupabase user now newLog)"

definition addMacro :: "User option \<Rightarrow> timestamp \<Rightarrow> MacroType \<Rightarrow> number \<Rightarrow> AppState \<Rightarrow> AppState \<times> RemoteCall list" where
  "addMacro user now type grams s = commitLog user now (addMacroLog now type grams (todayLog s)) s"

definition setSleep :: "User option \<Rightarrow> timestamp \<Rightarrow> number \<Rightarrow> AppState \<Rightarrow> AppState \<times> RemoteCall list" where
  "setSleep user now hours s = commitLog user now (setSleepLog now hours (todayLog s)) s"

definition setWeight :: "User option \<Rightarrow> timestamp \<Rightarrow> number \<Rightarrow> AppState \<Rightarrow> AppState \<times> RemoteCall list" where
  "setWeight user now lbs s = commitLog user now (setWeightLog now lbs (todayLog s)) s"

definition setPeriodDay :: "User option \<Rightarrow> timestamp \<Rightarrow> bool \<Rightarrow> AppState \<Rightarrow> AppState \<times> RemoteCall list" where
  "setPeriodDay user now isPeriod s = commitLog user now (setPeriodDayLog now isPeriod (todayLog s)) s"

definition setRating :: "User option \<Rightarrow> timestamp \<Rightarrow> RatingType \<Rightarrow> Rating option \<Rightarrow> AppState \<Rightarrow> AppState \<times> RemoteCall list" where
  "setRating user now type v s = commitLog user now (setRatingLog now type v (todayLog s)) s"

definition setSteps :: "User option \<Rightarrow> timestamp \<Rightarrow> number \<Rightarrow> AppState \<Rightarrow> AppState \<times> RemoteCall list" where
  "setSteps user now n s = commitLog user now (setStepsLog now n (todayLog s)) s"

text \<open>
  \<open>loadData\<close>.  The three awaited \<open>.single()\<close> reads resolve to \<open>logData\<close>, \<open>goalsData\<close>
  and \<open>profileData\<close> (\<open>None\<close> when no row is found or the read fails).
\<close>

record LoadResponses =
  logData :: "DbDailyLog option"
  goalsData :: "DbUserGoals option"
  profileData :: "DbProfile option"

text \<open>\<open>x || dflt\<close> for a nullable number: \<open>null\<close> and \<open>0\<close> are falsy.\<close>

definition orElse :: "number option \<Rightarrow> number \<Rightarrow> number" where
  "orElse x dflt = (case x of None \<Rightarrow> dflt | Some v \<Rightarrow> if v = 0 then dflt else v)"

definition loadData :: "User option \<Rightarrow> timestamp \<Rightarrow> Date \<Rightarrow> LoadResponses \<Rightarrow> AppState \<Rightarrow> AppState \<times> RemoteCall list" where
  "loadData user now today resp s =
     (case user of
        None \<Rightarrow>
          (s\<lparr>todayLog := createEmptyDailyLog now today, goals := DEFAULT_GOALS, isLoading := False\<rparr>, [])
      | Some u \<Rightarrow>
          (let s1 = s\<lparr>isLoading := True\<rparr>;
               todayStr = getTodayString today;
               s2 = (case logData resp of
                       Some row \<Rightarrow> s1\<lparr>todayLog := dbToApp row\<rparr>
                     | None \<Rightarrow> s1\<lparr>todayLog := createEmptyDailyLog now today\<rparr>);
               s3 = (case goalsData resp of
                       Some row \<Rightarrow> s2\<lparr>goals := dbGoalsToApp row\<rparr>
                     | None \<Rightarrow> s2);
               s4 = (case profileData resp of
                       Some p \<Rightarrow>
                         s3\<lparr>profile := \<lparr> age = DbProfile.age p, heightFeet = height_feet p,
                                         heightInches = height_inches p \<rparr>,
                            cycleSettings :=
                              \<lparr> cycleLength = orElse (cycle_length_days p) 28,
                                averagePeriodDays = orElse (period_length_days p) 5,
                                lastPeriodStartDate = last_period_start p \<rparr>\<rparr>
                     | None \<Rightarrow> s3)
           in (s4\<lparr>isLoading := False\<rparr>,
               [SelectDailyLog u todayStr, SelectUserGoals u, SelectProfile u])))"

section \<open>RolloverMonitor\<close>

text \<open>
  The effect installs the timer and the visibility listener only when there is a user;
  both run \<open>checkForDayChange\<close>.  One firing of either trigger:
\<close>

definition checkForDayChange :: "User option \<Rightarrow> timestamp \<Rightarrow> Date \<Rightarrow> LoadResponses \<Rightarrow> AppState \<Rightarrow> AppState \<times> RemoteCall list" where
  "checkForDayChange user now today resp s =
     (case user of
        None \<Rightarrow> (s, [])
      | Some u \<Rightarrow>
          if isLogStale today (DailyLog.date (todayLog s)) then loadData user now today resp s
          else (s, []))"

section \<open>Goal, profile and cycle-settings updates\<close>

text \<open>
  An \<open>async\<close> function that may throw returns \<open>Inl error\<close> for the rejection and
  \<open>Inr ()\<close> for normal completion.  \<open>err\<close> is the \<open>error\<close> field the awaited update
  resolves to.
\<close>

datatype GoalKey = CaloriesGoal | ProteinGoal | CarbsGoal | FatGoal | StepsGoal | SleepGoal

definition goalKeyMap :: "GoalKey \<Rightarrow> string" where
  "goalKeyMap k =
     (case k of CaloriesGoal \<Rightarrow> ''calories_goal'' | ProteinGoal \<Rightarrow> ''protein_goal''
      | CarbsGoal \<Rightarrow> ''carbs_goal'' | FatGoal \<Rightarrow> ''fat_goal''
      | StepsGoal \<Rightarrow> ''steps_goal'' | SleepGoal \<Rightarrow> ''sleep_goal'')"

definition setGoalField :: "GoalKey \<Rightarrow> number \<Rightarrow> UserGoals \<Rightarrow> UserGoals" where
  "setGoalField k v prev =
     (case k of CaloriesGoal \<Rightarrow> prev\<lparr>caloriesGoal := v\<rparr> | ProteinGoal \<Rightarrow> prev\<lparr>proteinGoal := v\<rparr>
      | CarbsGoal \<Rightarrow> prev\<lparr>carbsGoal := v\<rparr> | FatGoal \<Rightarrow> prev\<lparr>fatGoal := v\<rparr>
      | StepsGoal \<Rightarrow> prev\<lparr>stepsGoal := v\<rparr> | SleepGoal \<Rightarrow> prev\<lparr>sleepGoal := v\<rparr>)"

definition updateGoal :: "User option \<Rightarrow> timestamp \<Rightarrow> PostgrestError option \<Rightarrow> GoalKey \<Rightarrow> number \<Rightarrow> AppState
    \<Rightarrow> (PostgrestError + unit) \<times> AppState \<times> RemoteCall list" where
  "updateGoal user now err type v s =
     (case user of
        None \<Rightarrow> (Inr (), s, [])
      | Some u \<Rightarrow>
          (let call = UpdateUserGoals u [(goalKeyMap type, JNum v), (''updated_at'', JStr now)]
           in case err of
                None \<Rightarrow> (Inr (), s\<lparr>goals := setGoalField type v (goals s)\<rparr>, [call])
              | Some e \<Rightarrow> (Inl e, s, [call])))"

text \<open>
  \<open>updateProfile\<close> takes \<open>number | { feet, inches }\<close> and casts unchecked.  A value of the
  other shape has no number where the cast expects one: the model stores \<open>None\<close> and
  sends \<open>JUndefined\<close> there.
\<close>

datatype ProfileField = Age | HeightFeet | HeightInches

datatype ProfileValue = Num number | FeetInches number number

definition asNumber :: "ProfileValue \<Rightarrow> number option" where
  "asNumber v = (case v of Num n \<Rightarrow> Some n | FeetInches f i \<Rightarrow> None)"

definition feetOf :: "ProfileValue \<Rightarrow> number option" where
  "feetOf v = (case v of Num n \<Rightarrow> None | FeetInches f i \<Rightarrow> Some f)"

definition inchesOf :: "ProfileValue \<Rightarrow> number option" where
  "inchesOf v = (case v of Num n \<Rightarrow> None | FeetInches f i \<Rightarrow> Some i)"

definition jsonOf :: "number option \<Rightarrow> Json" where
  "jsonOf x = (case x of None \<Rightarrow> JUndefined | Some n \<Rightarrow> JNum n)"

definition updateProfile :: "User option \<Rightarrow> timestamp \<Rightarrow> PostgrestError option \<Rightarrow> ProfileField \<Rightarrow> ProfileValue \<Rightarrow> AppState
    \<Rightarrow> (PostgrestError + unit) \<times> AppState \<times> RemoteCall list" where
  "updateProfile user now err field v s =
     (case user of
        None \<Rightarrow> (Inr (), s, [])
      | Some u \<Rightarrow>
          (let updateData =
                 (if field = Age then [(''age'', jsonOf (asNumber v))]
                  else if field = HeightFeet
                    then [(''height_feet'', jsonOf (feetOf v)), (''height_inches'', jsonOf (inchesOf v))]
                    else []);
               call = UpdateProfiles u (updateData @ [(''updated_at'', JStr now)])
           in case err of
                None \<Rightarrow>
                  (if field = Age
                   then (Inr (), s\<lparr>profile := (profile s)\<lparr>age := asNumber v\<rparr>\<rparr>, [call])
                   else (Inr (), s\<lparr>profile := (profile s)\<lparr>heightFeet := feetOf v,
                                                         heightInches := inchesOf v\<rparr>\<rparr>, [call]))
              | Some e \<Rightarrow> (Inl e, s, [call])))"

text \<open>
  \<open>updateCycleSettings\<close> takes \<open>number | string\<close>; the two number fields are given numbers
  and the date field a string by the callers.  A value of the other shape is stored as
  it is at run time; the model keeps the old number, or stores \<open>None\<close> for the date.
\<close>

datatype CycleField = CycleLength | AveragePeriodDays | LastPeriodStartDate

datatype CycleValue = CNum number | CStr string

definition cycleJson :: "CycleValue \<Rightarrow> Json" where
  "cycleJson v = (case v of CNum n \<Rightarrow> JNum n | CStr x \<Rightarrow> JStr x)"

definition setCycleField :: "CycleField \<Rightarrow> CycleValue \<Rightarrow> CycleSettings \<Rightarrow> CycleSettings" where
  "setCycleField field v prev =
     (case field of
        CycleLength \<Rightarrow> (case v of CNum n \<Rightarrow> prev\<lparr>cycleLength := n\<rparr> | CStr x \<Rightarrow> prev)
      | AveragePeriodDays \<Rightarrow> (case v of CNum n \<Rightarrow> prev\<lparr>averagePeriodDays := n\<rparr> | CStr x \<Rightarrow> prev)
      | LastPeriodStartDate \<Rightarrow>
          (case v of CStr x \<Rightarrow> prev\<lparr>lastPeriodStartDate := Some x\<rparr>
           | CNum n \<Rightarrow> prev\<lparr>lastPeriodStartDate := None\<rparr>))"

definition updateCycleSettings :: "User option \<Rightarrow> timestamp \<Rightarrow> PostgrestError option \<Rightarrow> CycleField \<Rightarrow> CycleValue \<Rightarrow> AppState
    \<Rightarrow> (PostgrestError + unit) \<times> AppState \<times> RemoteCall list" where
  "updateCycleSettings user now err field v s =
     (case user of
        None \<Rightarrow> (Inr (), s, [])
      | Some u \<Rightarrow>
          (let updateData =
                 (case field of
                    CycleLength \<Rightarrow> [(''cycle_length_days'', cycleJson v)]
                  | AveragePeriodDays \<Rightarrow> [(''period_length_days'', cycleJson v)]
                  | LastPeriodStartDate \<Rightarrow> [(''last_period_start'', cycleJson v)]);
               call = UpdateProfiles u (updateData @ [(''updated_at'', JStr now)])
           in case err of
                None \<Rightarrow> (Inr (), s\<lparr>cycleSettings := setCycleField field v (cycleSettings s)\<rparr>, [call])
              | Some e \<Rightarrow> (Inl e, s, [call])))"

section \<open>AggregateQueryService\<close>

datatype ChartRange = D7 | D14 | D30

definition daysCount :: "ChartRange \<Rightarrow> nat" where
  "daysCount days = (if days = D7 then 7 else if days = D14 then 14 else 30)"

text \<open>
  \<open>getWeightHistory\<close>.  \<open>parseDate\<close> is the runtime's \<open>new Date(row.log_date)\<close> read through
  the local-time accessors.
\<close>

definition weightPoint :: "(string \<Rightarrow> Date) \<Rightarrow> DailyLogsRow \<Rightarrow> WeightDataPoint" where
  "weightPoint parseDate row =
     (let d = parseDate (log_date row);
          month = padStart 2 CHR ''0'' (stringOfNat (getMonth d + 1));
          day = padStart 2 CHR ''0'' (stringOfNat (getDate d))
      in \<lparr> WeightDataPoint.date = month @ ''/'' @ day, weight = weight_lbs row \<rparr>)"

definition getWeightHistory :: "User option \<Rightarrow> Date \<Rightarrow> (string \<Rightarrow> Date) \<Rightarrow> Remote \<Rightarrow> ChartRange \<Rightarrow> WeightDataPoint list" where
  "getWeightHistory user today parseDate remote days =
     (case user of
        None \<Rightarrow> []
      | Some u \<Rightarrow>
          (let startDate = setDateBack (daysCount days) today;
               startDateString = getLocalDateString startDate;
               resp = selectWeightLogs remote u startDateString
           in if error resp \<noteq> None then []
              else map (weightPoint parseDate) (case data resp of None \<Rightarrow> [] | Some rows \<Rightarrow> rows)))"

text \<open>\<open>getSevenDayAverages\<close>.  \<open>x || 0\<close> on a nullable number is \<open>orElse x 0\<close>.\<close>

record Sums =
  sum_calories :: number
  sum_protein :: number
  sum_steps :: number
  sum_sleep :: number

definition allNull :: SevenDayAverages where
  "allNull = \<lparr> calories = None, protein = None, SevenDayAverages.steps = None, sleep = None \<rparr>"

definition validRows :: "DailyLogsRow list \<Rightarrow> DailyLogsRow list" where
  "validRows rows =
     filter (\<lambda>row. total_calories row \<noteq> None \<or> protein_grams row \<noteq> None
                    \<or> steps row \<noteq> None \<or> sleep_hours row \<noteq> None) rows"

definition sumRows :: "DailyLogsRow list \<Rightarrow> Sums" where
  "sumRows rows =
     foldl (\<lambda>acc row.
         \<lparr> sum_calories = sum_calories acc + orElse (total_calories row) 0,
           sum_protein = sum_protein acc + orElse (protein_grams row) 0,
           sum_steps = sum_steps acc + orElse (steps row) 0,
           sum_sleep = sum_sleep acc + orElse (sleep_hours row) 0 \<rparr>)
       \<lparr> sum_calories = 0, sum_protein = 0, sum_steps = 0, sum_sleep = 0 \<rparr> rows"

definition averagesOf :: "DailyLogsRow list Response \<Rightarrow> SevenDayAverages" where
  "averagesOf resp =
     (if error resp \<noteq> None then allNull
      else case data resp of
        None \<Rightarrow> allNull
      | Some rows \<Rightarrow>
          if length rows = 0 then allNull
          else
            (let validData = validRows rows
             in if length validData = 0 then allNull
                else
                  (let totals = sumRows validData;
                       count = length validData;
                       sleepCount = length (filter (\<lambda>row. sleep_hours row \<noteq> None) validData)
                   in \<lparr> calories = Some (sum_calories totals / real count),
                        protein = Some (sum_protein totals / real count),
                        SevenDayAverages.steps = Some (sum_steps totals / real count),
                        sleep = (if sleepCount > 0 then Some (sum_sleep totals / real sleepCount)
                                 else None) \<rparr>)))"

definition getSevenDayAverages :: "User option \<Rightarrow> Date \<Rightarrow> Remote \<Rightarrow> SevenDayAverages" where
  "getSevenDayAverages user today remote =
     (case user of
        None \<Rightarrow> allNull
      | Some u \<Rightarrow>
          (let startDate = setDateBack 7 today;
               startDateString = getLocalDateString startDate
           in averagesOf (selectAverageLogs remote u startDateString)))"

section \<open>Sessions: mutations and their asynchronous writes\<close>

datatype Mutation =
    AddMacro MacroType number
  | SetSleep number
  | SetWeight number
  | SetPeriodDay bool
  | SetRating RatingType "Rating option"
  | SetSteps number

fun mutate :: "User option \<Rightarrow> timestamp \<Rightarrow> Mutation \<Rightarrow> AppState \<Rightarrow> AppState \<times> RemoteCall list" where
  "mutate user now (AddMacro type grams) s = addMacro user now type grams s"
| "mutate user now (SetSleep hours) s = setSleep user now hours s"
| "mutate user now (SetWeight lbs) s = setWeight user now lbs s"
| "mutate user now (SetPeriodDay b) s = setPeriodDay user now b s"
| "mutate user now (SetRating type v) s = setRating user now type v s"
| "mutate user now (SetSteps n) s = setSteps user now n s"

text \<open>
  A world is the provider's state, the upserts that were sent and have not completed,
  and the remote store.  An event is a mutator call, the arrival of the \<open>i\<close>-th pending
  upsert at the store, or its loss; arrivals may come in any order.
\<close>

record World =
  app :: AppState
  inflight :: "DailyLogsRow list"
  remote :: Remote

datatype Event =
    Call timestamp Mutation
  | WriteLands nat
  | WriteFails nat

fun upsertsOf :: "RemoteCall list \<Rightarrow> DailyLogsRow list" where
  "upsertsOf [] = []"
| "upsertsOf (UpsertDailyLog row # cs) = row # upsertsOf cs"
| "upsertsOf (c # cs) = upsertsOf cs"

definition removeAt :: "nat \<Rightarrow> 'a list \<Rightarrow> 'a list" where
  "removeAt i xs = take i xs @ drop (Suc i) xs"

fun step :: "User option \<Rightarrow> World \<Rightarrow> Event \<Rightarrow> World" where
  "step user w (Call now m) =
     (let (s, calls) = mutate user now m (app w)
      in w\<lparr>app := s, inflight := inflight w @ upsertsOf calls\<rparr>)"
| "step user w (WriteLands i) =
     (if i < length (inflight w)
      then w\<lparr>inflight := removeAt i (inflight w),
             remote := (remote w)\<lparr>daily_logs := upsertRow (inflight w ! i) (daily_logs (remote w))\<rparr>\<rparr>
      else w)"
| "step user w (WriteFails i) = w\<lparr>inflight := removeAt i (inflight w)\<rparr>"

definition run :: "User option \<Rightarrow> Event list \<Rightarrow> World \<Rightarrow> World" where
  "run user evs w = foldl (step user) w evs"

text \<open>The deltas that the calls of a run add to one macro, in order.\<close>

fun deltasOf :: "MacroType \<Rightarrow> Event list \<Rightarrow> number list" where
  "deltasOf t [] = []"
| "deltasOf t (Call now (AddMacro t' g) # evs) = (if t' = t then g # deltasOf t evs else deltasOf t evs)"
| "deltasOf t (e # evs) = deltasOf t evs"

definition macroOf :: "MacroType \<Rightarrow> DailyLog \<Rightarrow> number" where
  "macroOf t l = (case t of Protein \<Rightarrow> proteinGrams l | Carbs \<Rightarrow> carbsGrams l | Fat \<Rightarrow> fatGrams l)"

text \<open>The invariant of the cached calorie total.\<close>

definition caloriesConsistent :: "DailyLog \<Rightarrow> bool" where
  "caloriesConsistent l =
     (totalCalories l = calculateCalories (proteinGrams l) (carbsGrams l) (fatGrams l))"

text \<open>
  The mean of a field over all the given records, a missing value counted as zero:
  the average that the specification describes for calories, protein and steps.
\<close>

definition spec_zeroFillAverage :: "(DailyLogsRow \<Rightarrow> number option) \<Rightarrow> DailyLogsRow list \<Rightarrow> number option" where
  "spec_zeroFillAverage field rows =
     (if rows = [] then None
      else Some (sum_list (map (\<lambda>r. orElse (field r) 0) rows) / real (length rows)))"

text \<open>The sleep values of the records on which sleep was logged.\<close>

definition loggedSleep :: "DailyLogsRow list \<Rightarrow> number list" where
  "loggedSleep rows = List.map_filter sleep_hours rows"

section \<open>The macro accumulators\<close>

lemma todayLog_mutate:
  "todayLog (fst (mutate user now m s)) =
     (case m of AddMacro t g \<Rightarrow> addMacroLog now t g (todayLog s)
      | SetSleep h \<Rightarrow> setSleepLog now h (todayLog s)
      | SetWeight x \<Rightarrow> setWeightLog now x (todayLog s)
      | SetPeriodDay b \<Rightarrow> setPeriodDayLog now b (todayLog s)
      | SetRating t v \<Rightarrow> setRatingLog now t v (todayLog s)
      | SetSteps n \<Rightarrow> setStepsLog now n (todayLog s))"
  by (cases m)
     (simp_all add: addMacro_def setSleep_def setWeight_def setPeriodDay_def setRating_def
        setSteps_def commitLog_def)

lemma macroOf_addMacroLog:
  "macroOf t (addMacroLog now t' g l) = (if t' = t then macroOf t l + g else macroOf t l)"
  by (cases t; cases t') (simp_all add: macroOf_def addMacroLog_def Let_def)

lemma macroOf_other:
  "macroOf t (setSleepLog now h l) = macroOf t l"
  "macroOf t (setWeightLog now x l) = macroOf t l"
  "macroOf t (setPeriodDayLog now b l) = macroOf t l"
  "macroOf t (setRatingLog now rt v l) = macroOf t l"
  "macroOf t (setStepsLog now n l) = macroOf t l"
  by (cases t; cases rt;
      simp add: macroOf_def setSleepLog_def setWeightLog_def setPeriodDayLog_def
        setRatingLog_def setStepsLog_def)+

lemma app_step:
  "todayLog (app (step user w e)) =
     (case e of Call now m \<Rightarrow> todayLog (fst (mutate user now m (app w))) | _ \<Rightarrow> todayLog (app w))"
  by (cases e) (simp_all add: split_beta Let_def)

lemma deltasOf_Cons: "deltasOf t (e # evs) = deltasOf t [e] @ deltasOf t evs"
proof (cases e)
  case (Call now m)
  then show ?thesis by (cases m) simp_all
qed simp_all

lemma macroOf_step:
  "macroOf t (todayLog (app (step user w e))) = macroOf t (todayLog (app w)) + sum_list (deltasOf t [e])"
proof (cases e)
  case (Call now m)
  have "todayLog (app (step user w e)) = todayLog (fst (mutate user now m (app w)))"
    using Call by (simp add: app_step del: step.simps)
  then show ?thesis
    using Call
    by (cases m)
       (simp_all add: todayLog_mutate macroOf_addMacroLog macroOf_other del: step.simps mutate.simps)
next
  case (WriteLands i)
  then show ?thesis by (simp add: app_step del: step.simps)
next
  case (WriteFails i)
  then show ?thesis by (simp add: app_step del: step.simps)
qed

lemma macroOf_run:
  "macroOf t (todayLog (app (run user evs w))) = macroOf t (todayLog (app w)) + sum_list (deltasOf t evs)"
proof (induction evs arbitrary: w)
  case Nil
  then show ?case by (simp add: run_def)
next
  case (Cons e evs)
  have "run user (e # evs) w = run user evs (step user w e)"
    by (simp add: run_def)
  then show ?case
    using Cons.IH [of "step user w e"] macroOf_step [of t user w e] deltasOf_Cons [of t e evs]
    by simp
qed

text \<open>
  C5.  Whatever the cached record is at the start, and however mutator calls are
  interleaved with the arrival or the loss of the pending upserts, the cached
  accumulator of a macro ends as its initial value plus the sum of the deltas added to
  that macro.  The deltas 10, -3 and 5 on protein, with one upsert lost and the other
  two arriving in reverse order, give the initial value plus 12.
\<close>

theorem addMacro_accumulates:
  "macroOf t (todayLog (app (run user evs w))) = macroOf t (todayLog (app w)) + sum_list (deltasOf t evs)
   \<and> proteinGrams (todayLog (app (run user
         [Call n1 (AddMacro Protein 10), WriteFails 0, Call n2 (AddMacro Protein (- 3)),
          Call n3 (AddMacro Protein 5), WriteLands 1, WriteLands 0] w)))
       = proteinGrams (todayLog (app w)) + 12"
proof
  show "macroOf t (todayLog (app (run user evs w))) = macroOf t (todayLog (app w)) + sum_list (deltasOf t evs)"
    by (rule macroOf_run)
  show "proteinGrams (todayLog (app (run user
         [Call n1 (AddMacro Protein 10), WriteFails 0, Call n2 (AddMacro Protein (- 3)),
          Call n3 (AddMacro Protein 5), WriteLands 1, WriteLands 0] w)))
       = proteinGrams (todayLog (app w)) + 12"
    using macroOf_run [of Protein user
         "[Call n1 (AddMacro Protein 10), WriteFails 0, Call n2 (AddMacro Protein (- 3)),
          Call n3 (AddMacro Protein 5), WriteLands 1, WriteLands 0]" w]
    by (simp add: macroOf_def)
qed

text \<open>
  C4, as stated, fails: \<open>addMacro\<close> adds the delta without clamping, so a negative
  delta on the empty record leaves a negative accumulator.
\<close>

theorem addMacro_negative_counterexample:
  "\<not> 0 \<le> proteinGrams (todayLog (fst (addMacro (Some ''u1'') ''2024-12-25T08:00:00.000Z'' Protein (- 5)
       (initialState ''2024-12-25T07:59:00.000Z''
          \<lparr> getFullYear = 2024, getMonth = 11, getDate = 25, timeOfDay = 28740000 \<rparr>))))"
  by (simp add: addMacro_def commitLog_def addMacroLog_def initialState_def createEmptyDailyLog_def)

text \<open>
  C4, amended.  Starting from the empty record, after every sequence of events each
  macro accumulator equals the sum of the deltas added to that macro so far, and so is
  non-negative exactly when that sum is non-negative.  Deltas may be negative: the
  accumulators stay non-negative after every operation exactly for the sequences
  whose running sums, per macro, never go below zero (a sequence and each of its
  prefixes are covered alike), as with the deltas 10, -3 and 5.
\<close>

theorem macros_nonneg_iff_deltas_sum_nonneg:
  assumes "todayLog (app w) = createEmptyDailyLog now d"
  shows "proteinGrams (todayLog (app (run user evs w))) = sum_list (deltasOf Protein evs)
       \<and> carbsGrams (todayLog (app (run user evs w))) = sum_list (deltasOf Carbs evs)
       \<and> fatGrams (todayLog (app (run user evs w))) = sum_list (deltasOf Fat evs)
       \<and> (0 \<le> proteinGrams (todayLog (app (run user evs w)))) = (0 \<le> sum_list (deltasOf Protein evs))
       \<and> (0 \<le> carbsGrams (todayLog (app (run user evs w)))) = (0 \<le> sum_list (deltasOf Carbs evs))
       \<and> (0 \<le> fatGrams (todayLog (app (run user evs w)))) = (0 \<le> sum_list (deltasOf Fat evs))"
proof -
  have z: "macroOf t (todayLog (app w)) = 0" for t
    using assms by (cases t) (simp_all add: macroOf_def createEmptyDailyLog_def)
  have "macroOf t (todayLog (app (run user evs w))) = sum_list (deltasOf t evs)" for t
    using macroOf_run [of t user evs w] z [of t] by simp
  from this [of Protein] this [of Carbs] this [of Fat] show ?thesis
    by (simp add: macroOf_def)
qed

theorem macros_nonneg_iff_deltas_sum_nonneg_witness:
  "todayLog (app \<lparr> app = initialState ''t0'' \<lparr> getFullYear = 2024, getMonth = 11, getDate = 25, timeOfDay = 0 \<rparr>,
                   inflight = [], remote = \<lparr> daily_logs = [], outage = None \<rparr> \<rparr>)
     = createEmptyDailyLog ''t0'' \<lparr> getFullYear = 2024, getMonth = 11, getDate = 25, timeOfDay = 0 \<rparr>
   \<and> proteinGrams (todayLog (app (run (Some ''u1'')
        [Call ''t1'' (AddMacro Protein 10), Call ''t2'' (AddMacro Protein (- 3)), WriteLands 0,
         Call ''t3'' (AddMacro Protein 5)]
        \<lparr> app = initialState ''t0'' \<lparr> getFullYear = 2024, getMonth = 11, getDate = 25, timeOfDay = 0 \<rparr>,
          inflight = [], remote = \<lparr> daily_logs = [], outage = None \<rparr> \<rparr>))) = 12
   \<and> 0 \<le> proteinGrams (todayLog (app (run (Some ''u1'')
        [Call ''t1'' (AddMacro Protein 10), Call ''t2'' (AddMacro Protein (- 3)), WriteLands 0,
         Call ''t3'' (AddMacro Protein 5)]
        \<lparr> app = initialState ''t0'' \<lparr> getFullYear = 2024, getMonth = 11, getDate = 25, timeOfDay = 0 \<rparr>,
          inflight = [], remote = \<lparr> daily_logs = [], outage = None \<rparr> \<rparr>)))
   \<and> \<not> 0 \<le> fatGrams (todayLog (app (run (Some ''u1'')
        [Call ''t1'' (AddMacro Fat 2), Call ''t2'' (AddMacro Fat (- 5))]
        \<lparr> app = initialState ''t0'' \<lparr> getFullYear = 2024, getMonth = 11, getDate = 25, timeOfDay = 0 \<rparr>,
          inflight = [], remote = \<lparr> daily_logs = [], outage = None \<rparr> \<rparr>)))"
proof -
  have h: "todayLog (app \<lparr> app = initialState ''t0'' \<lparr> getFullYear = 2024, getMonth = 11, getDate = 25, timeOfDay = 0 \<rparr>,
                   inflight = [], remote = \<lparr> daily_logs = [], outage = None \<rparr> \<rparr>)
     = createEmptyDailyLog ''t0'' \<lparr> getFullYear = 2024, getMonth = 11, getDate = 25, timeOfDay = 0 \<rparr>"
    by (simp add: initialState_def)
  show ?thesis
    using h
      macros_nonneg_iff_deltas_sum_nonneg [OF h, of "Some ''u1''"
        "[Call ''t1'' (AddMacro Protein 10), Call ''t2'' (AddMacro Protein (- 3)), WriteLands 0,
          Call ''t3'' (AddMacro Protein 5)]"]
      macros_nonneg_iff_deltas_sum_nonneg [OF h, of "Some ''u1''"
        "[Call ''t1'' (AddMacro Fat 2), Call ''t2'' (AddMacro Fat (- 5))]"]
    by simp
qed

section \<open>The cached calorie total\<close>

text \<open>
  C10.  The empty record satisfies \<open>totalCalories = calculateCalories(proteinGrams,
  carbsGrams, fatGrams)\<close>, and every daily-log mutator maps a record that satisfies it
  to a record that satisfies it.
\<close>

theorem mutators_preserve_totalCalories:
  "caloriesConsistent (createEmptyDailyLog now d)
   \<and> (caloriesConsistent (todayLog s) \<longrightarrow> caloriesConsistent (todayLog (fst (mutate user now' m s))))"
proof -
  have "caloriesConsistent (createEmptyDailyLog now d)"
    by (simp add: caloriesConsistent_def createEmptyDailyLog_def calculateCalories_def)
  moreover have "caloriesConsistent (todayLog (fst (mutate user now' m s)))"
    if "caloriesConsistent (todayLog s)"
  proof (cases m)
    case (AddMacro t g)
    then show ?thesis
      by (cases t) (simp_all add: todayLog_mutate caloriesConsistent_def addMacroLog_def Let_def del: mutate.simps)
  next
    case (SetRating t v)
    then show ?thesis using that
      by (cases t) (simp_all add: todayLog_mutate caloriesConsistent_def setRatingLog_def del: mutate.simps)
  qed (use that in \<open>simp_all add: todayLog_mutate caloriesConsistent_def setSleepLog_def
          setWeightLog_def setPeriodDayLog_def setStepsLog_def del: mutate.simps\<close>)
  ultimately show ?thesis by blast
qed

theorem mutators_preserve_totalCalories_witness:
  "caloriesConsistent (todayLog (initialState ''t0'' \<lparr> getFullYear = 2024, getMonth = 11, getDate = 25, timeOfDay = 0 \<rparr>))
   \<and> caloriesConsistent (todayLog (fst (mutate (Some ''u1'') ''t1'' (SetSleep 7)
        (initialState ''t0'' \<lparr> getFullYear = 2024, getMonth = 11, getDate = 25, timeOfDay = 0 \<rparr>))))"
  using mutators_preserve_totalCalories [of "''t0''" "\<lparr> getFullYear = 2024, getMonth = 11, getDate = 25, timeOfDay = 0 \<rparr>"
      "initialState ''t0'' \<lparr> getFullYear = 2024, getMonth = 11, getDate = 25, timeOfDay = 0 \<rparr>"
      "Some ''u1''" "''t1''" "SetSleep 7"]
  by (simp add: initialState_def)

text \<open>
  C2, as stated, fails: calories are stored.  The upsert that follows
  \<open>addMacro('protein', 85)\<close> on the empty record carries \<open>total_calories = 340\<close>.
\<close>

theorem upsert_stores_calories_counterexample:
  "map total_calories (upsertsOf (snd (addMacro (Some ''u1'') ''2024-12-25T08:00:00.000Z'' Protein 85
       (initialState ''2024-12-25T07:59:00.000Z''
          \<lparr> getFullYear = 2024, getMonth = 11, getDate = 25, timeOfDay = 28740000 \<rparr>))))
   = [Some 340]"
  by (simp add: addMacro_def commitLog_def addMacroLog_def initialState_def createEmptyDailyLog_def
        saveToSupabase_def calculateCalories_def Let_def)

text \<open>
  C2, amended.  Every upsert of the daily record carries a \<open>total_calories\<close> column;
  its value is recomputed in \<open>saveToSupabase\<close> as \<open>protein*4 + carbs*4 + fat*9\<close> from the
  macro values written by the same upsert, and does not depend on the record's cached
  \<open>totalCalories\<close> field.  Every mutator sends exactly the upsert of the record it
  caches.
\<close>

theorem saveToSupabase_recomputes_calories:
  "saveToSupabase user now (lg\<lparr>totalCalories := x\<rparr>) = saveToSupabase user now lg
   \<and> map total_calories (upsertsOf (saveToSupabase user now lg))
     = (case user of None \<Rightarrow> []
        | Some u \<Rightarrow> [Some (proteinGrams lg * 4 + carbsGrams lg * 4 + fatGrams lg * 9)])
   \<and> map protein_grams (upsertsOf (saveToSupabase user now lg))
     = (case user of None \<Rightarrow> [] | Some u \<Rightarrow> [Some (proteinGrams lg)])
   \<and> map carbs_grams (upsertsOf (saveToSupabase user now lg))
     = (case user of None \<Rightarrow> [] | Some u \<Rightarrow> [Some (carbsGrams lg)])
   \<and> map fat_grams (upsertsOf (saveToSupabase user now lg))
     = (case user of None \<Rightarrow> [] | Some u \<Rightarrow> [Some (fatGrams lg)])
   \<and> snd (mutate user now m s) = saveToSupabase user now (todayLog (fst (mutate user now m s)))"
proof -
  have "snd (mutate user now m s) = saveToSupabase user now (todayLog (fst (mutate user now m s)))"
    by (cases m)
       (simp_all add: addMacro_def setSleep_def setWeight_def setPeriodDay_def setRating_def
          setSteps_def commitLog_def)
  then show ?thesis
    by (cases user) (simp_all add: saveToSupabase_def calculateCalories_def Let_def)
qed

section \<open>The empty record\<close>

text \<open>
  C1, as stated, fails on \<open>isPeriodDay\<close>: the record the cache is initialised with has
  \<open>isPeriodDay = false\<close>, a boolean, not the unset value that the \<open>createEmptyDailyLog\<close>
  of the types module produces.
\<close>

theorem createEmptyDailyLog_isPeriodDay_counterexample:
  "isPeriodDay (createEmptyDailyLog ''2024-12-25T08:00:00.000Z''
        \<lparr> getFullYear = 2024, getMonth = 11, getDate = 25, timeOfDay = 28800000 \<rparr>) = False
   \<and> Some (isPeriodDay (createEmptyDailyLog ''2024-12-25T08:00:00.000Z''
        \<lparr> getFullYear = 2024, getMonth = 11, getDate = 25, timeOfDay = 28800000 \<rparr>))
     \<noteq> Types_DailyLog.isPeriodDay (Types_createEmptyDailyLog ''2024-12-25T08:00:00.000Z''
        \<lparr> getFullYear = 2024, getMonth = 11, getDate = 25, timeOfDay = 28800000 \<rparr>)"
  by (simp add: createEmptyDailyLog_def Types_createEmptyDailyLog_def)

text \<open>
  C1, amended.  Without a user, or when no log is stored for today, \<open>loadData\<close> caches
  the empty record, which is also the initial value of the cell: the three macro
  accumulators and the calorie total are 0, sleep and weight are absent,
  \<open>isPeriodDay\<close> is \<open>false\<close> (the cached field is two-valued), steps are 0 and the three
  ratings are absent.  The unset \<open>isPeriodDay\<close> is what the types module's
  \<open>createEmptyDailyLog\<close> yields.
\<close>

theorem empty_record_on_load:
  assumes "user = None \<or> logData resp = None"
  shows "todayLog (fst (loadData user now today resp s)) = createEmptyDailyLog now today
     \<and> todayLog (initialState now today) = createEmptyDailyLog now today
     \<and> proteinGrams (createEmptyDailyLog now today) = 0
     \<and> carbsGrams (createEmptyDailyLog now today) = 0
     \<and> fatGrams (createEmptyDailyLog now today) = 0
     \<and> totalCalories (createEmptyDailyLog now today) = 0
     \<and> sleepHours (createEmptyDailyLog now today) = None
     \<and> weightLbs (createEmptyDailyLog now today) = None
     \<and> isPeriodDay (createEmptyDailyLog now today) = False
     \<and> DailyLog.steps (createEmptyDailyLog now today) = 0
     \<and> energyRating (createEmptyDailyLog now today) = None
     \<and> hungerRating (createEmptyDailyLog now today) = None
     \<and> motivationRating (createEmptyDailyLog now today) = None
     \<and> Types_DailyLog.isPeriodDay (Types_createEmptyDailyLog now today) = None"
proof -
  have "todayLog (fst (loadData user now today resp s)) = createEmptyDailyLog now today"
    using assms by (auto simp: loadData_def Let_def split: option.splits)
  then show ?thesis
    by (simp add: initialState_def createEmptyDailyLog_def Types_createEmptyDailyLog_def)
qed

theorem empty_record_on_load_witness:
  "(Some ''u1'' = None \<or> logData \<lparr> logData = None, goalsData = None, profileData = None \<rparr> = None)
   \<and> isPeriodDay (todayLog (fst (loadData (Some ''u1'') ''2024-12-25T08:00:00.000Z''
        \<lparr> getFullYear = 2024, getMonth = 11, getDate = 25, timeOfDay = 28800000 \<rparr>
        \<lparr> logData = None, goalsData = None, profileData = None \<rparr>
        (initialState ''2024-12-24T08:00:00.000Z''
           \<lparr> getFullYear = 2024, getMonth = 11, getDate = 24, timeOfDay = 28800000 \<rparr>)))) = False"
proof -
  have h: "Some ''u1'' = None \<or> logData \<lparr> logData = None, goalsData = None, profileData = None \<rparr> = None"
    by simp
  show ?thesis
    using h empty_record_on_load [OF h, of "''2024-12-25T08:00:00.000Z''"
        "\<lparr> getFullYear = 2024, getMonth = 11, getDate = 25, timeOfDay = 28800000 \<rparr>"
        "initialState ''2024-12-24T08:00:00.000Z''
           \<lparr> getFullYear = 2024, getMonth = 11, getDate = 24, timeOfDay = 28800000 \<rparr>"]
    by simp
qed

section \<open>Signed out\<close>

lemma mutate_signed_out: "snd (mutate None now m s) = []"
  by (cases m)
     (simp_all add: addMacro_def setSleep_def setWeight_def setPeriodDay_def setRating_def
        setSteps_def commitLog_def saveToSupabase_def)

lemma step_signed_out:
  "inflight w = [] \<Longrightarrow> inflight (step None w e) = [] \<and> remote (step None w e) = remote w"
proof (cases e)
  case (Call now m)
  then show "inflight w = [] \<Longrightarrow> ?thesis"
    using mutate_signed_out [of now m "app w"]
    by (simp add: split_beta)
qed (simp_all add: removeAt_def)

lemma run_signed_out:
  "inflight w = [] \<Longrightarrow> inflight (run None evs w) = [] \<and> remote (run None evs w) = remote w"
proof (induction evs arbitrary: w)
  case Nil
  then show ?case by (simp add: run_def)
next
  case (Cons e evs)
  have r: "run None (e # evs) w = run None evs (step None w e)"
    by (simp add: run_def)
  from step_signed_out [OF Cons.prems, of e] Cons.IH [of "step None w e"] show ?case
    unfolding r by simp
qed

text \<open>
  C9.  Without a user no request is sent: \<open>loadData\<close> caches the empty record and the
  default goals, every daily-log mutator sends nothing, the rollover check changes
  nothing, the settings updates and the aggregate queries return at once, and over a
  whole run of events that starts with no pending upsert none becomes pending and the
  remote store stays as it was.
\<close>

theorem signed_out_no_remote_io:
  "loadData None now today resp s
     = (s\<lparr>todayLog := createEmptyDailyLog now today, goals := DEFAULT_GOALS, isLoading := False\<rparr>, [])
   \<and> snd (mutate None now m s) = []
   \<and> checkForDayChange None now today resp s = (s, [])
   \<and> updateGoal None now err k v s = (Inr (), s, [])
   \<and> updateProfile None now err pf pv s = (Inr (), s, [])
   \<and> updateCycleSettings None now err cf cv s = (Inr (), s, [])
   \<and> getWeightHistory None today parseDate rem days = []
   \<and> getSevenDayAverages None today rem = allNull
   \<and> (inflight w = [] \<longrightarrow> inflight (run None evs w) = [] \<and> remote (run None evs w) = remote w)"
  using run_signed_out [of w evs] mutate_signed_out [of now m s]
  by (simp add: loadData_def checkForDayChange_def updateGoal_def updateProfile_def
        updateCycleSettings_def getWeightHistory_def getSevenDayAverages_def)

theorem signed_out_no_remote_io_witness:
  "inflight \<lparr> app = initialState ''t0'' \<lparr> getFullYear = 2024, getMonth = 11, getDate = 25, timeOfDay = 0 \<rparr>,
              inflight = [], remote = \<lparr> daily_logs = [], outage = None \<rparr> \<rparr> = []
   \<and> inflight (run None [Call ''t1'' (AddMacro Protein 10), Call ''t2'' (SetSleep 7), WriteLands 0]
        \<lparr> app = initialState ''t0'' \<lparr> getFullYear = 2024, getMonth = 11, getDate = 25, timeOfDay = 0 \<rparr>,
          inflight = [], remote = \<lparr> daily_logs = [], outage = None \<rparr> \<rparr>) = []
   \<and> remote (run None [Call ''t1'' (AddMacro Protein 10), Call ''t2'' (SetSleep 7), WriteLands 0]
        \<lparr> app = initialState ''t0'' \<lparr> getFullYear = 2024, getMonth = 11, getDate = 25, timeOfDay = 0 \<rparr>,
          inflight = [], remote = \<lparr> daily_logs = [], outage = None \<rparr> \<rparr>)
       = \<lparr> daily_logs = [], outage = None \<rparr>"
  using signed_out_no_remote_io [where
      w = "\<lparr> app = initialState ''t0'' \<lparr> getFullYear = 2024, getMonth = 11, getDate = 25, timeOfDay = 0 \<rparr>,
          inflight = [], remote = \<lparr> daily_logs = [], outage = None \<rparr> \<rparr>"
      and evs = "[Call ''t1'' (AddMacro Protein 10), Call ''t2'' (SetSleep 7), WriteLands 0]"]
  by simp

section \<open>Pessimistic updates\<close>

text \<open>
  C6.  With a user, \<open>updateGoal\<close>, \<open>updateProfile\<close> and \<open>updateCycleSettings\<close> each send
  one update and wait for its result.  When it carries an error, the error is thrown
  to the caller and the state is exactly the state before; when it carries none, the
  call completes normally and the cached value is the updated one.
\<close>

theorem settings_updates_pessimistic:
  "(err = Some e \<longrightarrow>
       updateGoal (Some u) now err k v s
         = (Inl e, s, [UpdateUserGoals u [(goalKeyMap k, JNum v), (''updated_at'', JStr now)]])
     \<and> fst (updateProfile (Some u) now err pf pv s) = Inl e
     \<and> fst (snd (updateProfile (Some u) now err pf pv s)) = s
     \<and> fst (updateCycleSettings (Some u) now err cf cv s) = Inl e
     \<and> fst (snd (updateCycleSettings (Some u) now err cf cv s)) = s)
   \<and> (err = None \<longrightarrow>
       updateGoal (Some u) now err k v s
         = (Inr (), s\<lparr>goals := setGoalField k v (goals s)\<rparr>,
            [UpdateUserGoals u [(goalKeyMap k, JNum v), (''updated_at'', JStr now)]])
     \<and> fst (updateProfile (Some u) now err pf pv s) = Inr ()
     \<and> fst (snd (updateProfile (Some u) now err pf pv s))
         = (if pf = Age then s\<lparr>profile := (profile s)\<lparr>age := asNumber pv\<rparr>\<rparr>
            else s\<lparr>profile := (profile s)\<lparr>heightFeet := feetOf pv, heightInches := inchesOf pv\<rparr>\<rparr>)
     \<and> updateCycleSettings (Some u) now err cf cv s
         = (Inr (), s\<lparr>cycleSettings := setCycleField cf cv (cycleSettings s)\<rparr>,
            snd (snd (updateCycleSettings (Some u) now err cf cv s))))
   \<and> length (snd (snd (updateGoal (Some u) now err k v s))) = 1
   \<and> length (snd (snd (updateProfile (Some u) now err pf pv s))) = 1
   \<and> length (snd (snd (updateCycleSettings (Some u) now err cf cv s))) = 1"
  by (cases err) (simp_all add: updateGoal_def updateProfile_def updateCycleSettings_def Let_def)

theorem settings_updates_pessimistic_witness:
  "goals (fst (snd (updateGoal (Some ''u1'') ''t1'' (Some ''permission denied'') ProteinGoal 150
       (initialState ''t0'' \<lparr> getFullYear = 2024, getMonth = 11, getDate = 25, timeOfDay = 0 \<rparr>))))
     = DEFAULT_GOALS
   \<and> fst (updateGoal (Some ''u1'') ''t1'' (Some ''permission denied'') ProteinGoal 150
       (initialState ''t0'' \<lparr> getFullYear = 2024, getMonth = 11, getDate = 25, timeOfDay = 0 \<rparr>))
     = Inl ''permission denied''
   \<and> proteinGoal (goals (fst (snd (updateGoal (Some ''u1'') ''t1'' None ProteinGoal 150
       (initialState ''t0'' \<lparr> getFullYear = 2024, getMonth = 11, getDate = 25, timeOfDay = 0 \<rparr>))))) = 150"
  using settings_updates_pessimistic [of "Some ''permission denied''" "''permission denied''" "''u1''" "''t1''"
      ProteinGoal 150 "initialState ''t0'' \<lparr> getFullYear = 2024, getMonth = 11, getDate = 25, timeOfDay = 0 \<rparr>"]
    settings_updates_pessimistic [of None "''x''" "''u1''" "''t1''"
      ProteinGoal 150 "initialState ''t0'' \<lparr> getFullYear = 2024, getMonth = 11, getDate = 25, timeOfDay = 0 \<rparr>"]
  by (simp add: initialState_def setGoalField_def)

section \<open>Day keys\<close>

lemma digitChar_inj: "i < 10 \<Longrightarrow> j < 10 \<Longrightarrow> digitChar i = digitChar j \<Longrightarrow> i = j"
proof -
  assume a: "i < 10" "j < 10" "digitChar i = digitChar j"
  have d: "distinct ''0123456789''" by simp
  have l: "length ''0123456789'' = 10" by simp
  from a show "i = j"
    unfolding digitChar_def using nth_eq_iff_index_eq [OF d, of i j] l by simp
qed

lemma digitChar_in: "i < 10 \<Longrightarrow> digitChar i \<in> set ''0123456789''"
  unfolding digitChar_def by (rule nth_mem) simp

lemma stringOfNat_digits: "set (stringOfNat n) \<subseteq> set ''0123456789''"
proof (induction n rule: stringOfNat.induct)
  case (1 n)
  show ?case
  proof (cases "n < 10")
    case True
    then show ?thesis using digitChar_in [of n] by (subst stringOfNat.simps) simp
  next
    case False
    have "n mod 10 < 10" by simp
    then have "digitChar (n mod 10) \<in> set ''0123456789''" by (rule digitChar_in)
    with False "1.IH" show ?thesis by (subst stringOfNat.simps) simp
  qed
qed

lemma stringOfNat_nonempty: "stringOfNat n \<noteq> []"
  by (subst stringOfNat.simps) simp

lemma stringOfNat_inj: "stringOfNat m = stringOfNat n \<Longrightarrow> m = n"
proof (induction m arbitrary: n rule: stringOfNat.induct)
  case (1 m)
  show ?case
  proof (cases "m < 10")
    case mlt: True
    show ?thesis
    proof (cases "n < 10")
      case True
      with mlt "1.prems" show ?thesis
        by (simp add: stringOfNat.simps [of m] stringOfNat.simps [of n] digitChar_inj)
    next
      case False
      with mlt "1.prems" stringOfNat_nonempty [of "n div 10"] show ?thesis
        by (simp add: stringOfNat.simps [of m] stringOfNat.simps [of n] Cons_eq_append_conv)
    qed
  next
    case mge: False
    show ?thesis
    proof (cases "n < 10")
      case True
      with mge "1.prems" stringOfNat_nonempty [of "m div 10"] show ?thesis
        by (simp add: stringOfNat.simps [of m] stringOfNat.simps [of n] append_eq_Cons_conv)
    next
      case False
      with mge "1.prems" have e: "stringOfNat (m div 10) = stringOfNat (n div 10)"
        and c: "digitChar (m mod 10) = digitChar (n mod 10)"
        by (simp_all add: stringOfNat.simps [of m] stringOfNat.simps [of n])
      from "1.IH" [OF mge e] have "m div 10 = n div 10" .
      moreover from c have "m mod 10 = n mod 10" by (intro digitChar_inj) simp_all
      ultimately show ?thesis by (metis div_mult_mod_eq)
    qed
  qed
qed

lemma stringOfInt_inj: "stringOfInt i = stringOfInt j \<Longrightarrow> i = j"
proof -
  assume a: "stringOfInt i = stringOfInt j"
  have nominus: "CHR ''-'' # s \<noteq> stringOfNat k" for s k
  proof
    assume "CHR ''-'' # s = stringOfNat k"
    then have "CHR ''-'' \<in> set (stringOfNat k)" by (metis list.set_intros(1))
    with stringOfNat_digits [of k] show False by auto
  qed
  show "i = j"
  proof (cases "i < 0")
    case ineg: True
    show ?thesis
    proof (cases "j < 0")
      case True
      with ineg a have "nat (- i) = nat (- j)" by (simp add: stringOfInt_def stringOfNat_inj)
      with ineg True show ?thesis by simp
    next
      case False
      with ineg a nominus show ?thesis by (simp add: stringOfInt_def)
    qed
  next
    case ipos: False
    show ?thesis
    proof (cases "j < 0")
      case True
      with ipos a nominus [of "stringOfNat (nat (- j))" "nat i"] show ?thesis
        by (simp add: stringOfInt_def)
    next
      case False
      with ipos a have "nat i = nat j" by (simp add: stringOfInt_def stringOfNat_inj)
      with ipos False show ?thesis by simp
    qed
  qed
qed

lemma pad2: "n < 100 \<Longrightarrow> padStart 2 CHR ''0'' (stringOfNat n) = [digitChar (n div 10), digitChar (n mod 10)]"
proof -
  assume n: "n < 100"
  show ?thesis
  proof (cases "n < 10")
    case True
    then show ?thesis by (simp add: padStart_def stringOfNat.simps [of n] digitChar_def)
  next
    case False
    with n have "n div 10 < 10" by simp
    with False show ?thesis
      by (simp add: padStart_def stringOfNat.simps [of n] stringOfNat.simps [of "n div 10"])
  qed
qed

lemma pad2_inj:
  assumes "m < 100" "n < 100"
    and "padStart 2 CHR ''0'' (stringOfNat m) = padStart 2 CHR ''0'' (stringOfNat n)"
  shows "m = n"
proof -
  from assms have "digitChar (m div 10) = digitChar (n div 10)" "digitChar (m mod 10) = digitChar (n mod 10)"
    by (simp_all add: pad2)
  moreover from assms have "m div 10 < 10" "n div 10 < 10" by simp_all
  ultimately have "m div 10 = n div 10" "m mod 10 = n mod 10"
    by (auto intro: digitChar_inj)
  then show ?thesis by (metis div_mult_mod_eq)
qed

lemma daysInMonth_le: "daysInMonth y m \<le> 31"
  by (simp add: daysInMonth_def)

lemma getLocalDateString_shape:
  assumes "validDate d"
  shows "getLocalDateString d = stringOfInt (getFullYear d) @
     [CHR ''-'', digitChar ((getMonth d + 1) div 10), digitChar ((getMonth d + 1) mod 10),
      CHR ''-'', digitChar (getDate d div 10), digitChar (getDate d mod 10)]"
proof -
  from assms have "getMonth d + 1 < 100" "getDate d < 100"
    using daysInMonth_le [of "getFullYear d" "getMonth d"] by (simp_all add: validDate_def)
  then show ?thesis by (simp add: getLocalDateString_def Let_def pad2)
qed

lemma getLocalDateString_inj:
  assumes "validDate d1" "validDate d2" "getLocalDateString d1 = getLocalDateString d2"
  shows "getFullYear d1 = getFullYear d2 \<and> getMonth d1 = getMonth d2 \<and> getDate d1 = getDate d2"
proof -
  from assms(1) have b1: "getMonth d1 + 1 < 100" "getDate d1 < 100"
    using daysInMonth_le [of "getFullYear d1" "getMonth d1"] by (simp_all add: validDate_def)
  from assms(2) have b2: "getMonth d2 + 1 < 100" "getDate d2 < 100"
    using daysInMonth_le [of "getFullYear d2" "getMonth d2"] by (simp_all add: validDate_def)
  from assms(3) have e: "stringOfInt (getFullYear d1) = stringOfInt (getFullYear d2)"
    and m: "digitChar ((getMonth d1 + 1) div 10) = digitChar ((getMonth d2 + 1) div 10)"
           "digitChar ((getMonth d1 + 1) mod 10) = digitChar ((getMonth d2 + 1) mod 10)"
    and dd: "digitChar (getDate d1 div 10) = digitChar (getDate d2 div 10)"
           "digitChar (getDate d1 mod 10) = digitChar (getDate d2 mod 10)"
    unfolding getLocalDateString_shape [OF assms(1)] getLocalDateString_shape [OF assms(2)]
    by simp_all
  from e have y: "getFullYear d1 = getFullYear d2" by (rule stringOfInt_inj)
  from m b1 b2 have "(getMonth d1 + 1) div 10 = (getMonth d2 + 1) div 10"
      "(getMonth d1 + 1) mod 10 = (getMonth d2 + 1) mod 10"
    by (auto intro: digitChar_inj)
  then have "getMonth d1 + 1 = getMonth d2 + 1" by (metis div_mult_mod_eq)
  moreover from dd b1 b2 have "getDate d1 div 10 = getDate d2 div 10" "getDate d1 mod 10 = getDate d2 mod 10"
    by (auto intro: digitChar_inj)
  then have "getDate d1 = getDate d2" by (metis div_mult_mod_eq)
  ultimately show ?thesis using y by simp
qed

text \<open>
  C7.  For two dates with valid local calendar fields, the day keys are equal exactly
  when year, month and day of month are equal: instants of one local calendar day have
  the same key, whatever the time of day, and instants of different local days (as on
  the two sides of a local midnight) have different keys.  \<open>isLogStale\<close> is true exactly
  when the record's key differs from the key of the current instant.
\<close>

theorem day_key_same_day_iff:
  assumes "validDate d1" and "validDate d2"
  shows "(getLocalDateString d1 = getLocalDateString d2)
           = (getFullYear d1 = getFullYear d2 \<and> getMonth d1 = getMonth d2 \<and> getDate d1 = getDate d2)
       \<and> getLocalDateString (d1\<lparr>timeOfDay := t\<rparr>) = getLocalDateString d1
       \<and> isLogStale d1 key = (key \<noteq> getLocalDateString d1)"
proof -
  have "getLocalDateString d1 = getLocalDateString d2"
    if "getFullYear d1 = getFullYear d2 \<and> getMonth d1 = getMonth d2 \<and> getDate d1 = getDate d2"
    using that by (simp add: getLocalDateString_def)
  with getLocalDateString_inj [OF assms] show ?thesis
    by (auto simp: isLogStale_def getTodayString_def getLocalDateString_def)
qed

theorem day_key_same_day_iff_witness:
  "validDate \<lparr> getFullYear = 2024, getMonth = 11, getDate = 31, timeOfDay = 86399999 \<rparr>
   \<and> validDate \<lparr> getFullYear = 2025, getMonth = 0, getDate = 1, timeOfDay = 0 \<rparr>
   \<and> getLocalDateString \<lparr> getFullYear = 2024, getMonth = 11, getDate = 31, timeOfDay = 86399999 \<rparr>
       \<noteq> getLocalDateString \<lparr> getFullYear = 2025, getMonth = 0, getDate = 1, timeOfDay = 0 \<rparr>
   \<and> getLocalDateString \<lparr> getFullYear = 2024, getMonth = 11, getDate = 31, timeOfDay = 0 \<rparr>
       = getLocalDateString \<lparr> getFullYear = 2024, getMonth = 11, getDate = 31, timeOfDay = 86399999 \<rparr>
   \<and> isLogStale \<lparr> getFullYear = 2025, getMonth = 0, getDate = 1, timeOfDay = 0 \<rparr> ''2024-12-31''"
proof -
  have v1: "validDate \<lparr> getFullYear = 2024, getMonth = 11, getDate = 31, timeOfDay = 86399999 \<rparr>"
    by (simp add: validDate_def daysInMonth_def)
  have v2: "validDate \<lparr> getFullYear = 2025, getMonth = 0, getDate = 1, timeOfDay = 0 \<rparr>"
    by (simp add: validDate_def daysInMonth_def)
  have k: "getLocalDateString \<lparr> getFullYear = 2025, getMonth = 0, getDate = 1, timeOfDay = 0 \<rparr> = ''2025-01-01''"
    by code_simp
  show ?thesis
    using v1 v2 k day_key_same_day_iff [OF v1 v2, of 0 "''2024-12-31''"]
      day_key_same_day_iff [OF v2 v1, of 0 "''2024-12-31''"]
    by simp
qed

section \<open>Seven-day averages\<close>

lemma foldl_sums:
  "foldl (\<lambda>acc row.
         \<lparr> sum_calories = sum_calories acc + orElse (total_calories row) 0,
           sum_protein = sum_protein acc + orElse (protein_grams row) 0,
           sum_steps = sum_steps acc + orElse (steps row) 0,
           sum_sleep = sum_sleep acc + orElse (sleep_hours row) 0 \<rparr>) a rows
   = \<lparr> sum_calories = sum_calories a + sum_list (map (\<lambda>r. orElse (total_calories r) 0) rows),
       sum_protein = sum_protein a + sum_list (map (\<lambda>r. orElse (protein_grams r) 0) rows),
       sum_steps = sum_steps a + sum_list (map (\<lambda>r. orElse (steps r) 0) rows),
       sum_sleep = sum_sleep a + sum_list (map (\<lambda>r. orElse (sleep_hours r) 0) rows) \<rparr>"
  by (induction rows arbitrary: a) (simp_all add: add.assoc)

lemma sumRows_eq:
  "sumRows rows
   = \<lparr> sum_calories = sum_list (map (\<lambda>r. orElse (total_calories r) 0) rows),
       sum_protein = sum_list (map (\<lambda>r. orElse (protein_grams r) 0) rows),
       sum_steps = sum_list (map (\<lambda>r. orElse (steps r) 0) rows),
       sum_sleep = sum_list (map (\<lambda>r. orElse (sleep_hours r) 0) rows) \<rparr>"
  unfolding sumRows_def foldl_sums by simp

lemma orElse_zero: "orElse (Some v) 0 = v" "orElse None 0 = 0"
  by (simp_all add: orElse_def)

lemma sleep_sum_logged:
  "sum_list (map (\<lambda>r. orElse (sleep_hours r) 0) rows) = sum_list (loggedSleep rows)"
proof (induction rows)
  case Nil
  then show ?case by (simp add: loggedSleep_def List.map_filter_simps)
next
  case (Cons r rows)
  then show ?case
    by (cases "sleep_hours r") (simp_all add: loggedSleep_def List.map_filter_simps orElse_zero)
qed

lemma sleep_count_logged:
  "length (filter (\<lambda>row. sleep_hours row \<noteq> None) rows) = length (loggedSleep rows)"
  by (simp add: loggedSleep_def List.map_filter_def)

lemma loggedSleep_validRows: "loggedSleep (validRows rows) = loggedSleep rows"
proof -
  have "filter (\<lambda>r. sleep_hours r \<noteq> None) (validRows rows) = filter (\<lambda>r. sleep_hours r \<noteq> None) rows"
    unfolding validRows_def filter_filter by (rule filter_cong) auto
  then show ?thesis by (simp add: loggedSleep_def List.map_filter_def)
qed

lemma averagesOf_rows:
  "averagesOf \<lparr> data = Some rows, error = None \<rparr>
   = (if validRows rows = [] then allNull
      else \<lparr> calories = spec_zeroFillAverage total_calories (validRows rows),
             protein = spec_zeroFillAverage protein_grams (validRows rows),
             SevenDayAverages.steps = spec_zeroFillAverage steps (validRows rows),
             sleep = (if loggedSleep rows = [] then None
                      else Some (sum_list (loggedSleep rows) / real (length (loggedSleep rows)))) \<rparr>)"
proof (cases "validRows rows = []")
  case True
  then show ?thesis by (simp add: averagesOf_def Let_def)
next
  case False
  then have "rows \<noteq> []" by (auto simp: validRows_def)
  with False show ?thesis
    using sleep_sum_logged [of "validRows rows"] sleep_count_logged [of "validRows rows"]
    by (simp add: averagesOf_def Let_def sumRows_eq spec_zeroFillAverage_def loggedSleep_validRows)
qed


lemma getSevenDayAverages_window:
  "getSevenDayAverages (Some u) today rem
   = (if outage rem \<noteq> None then allNull
      else averagesOf \<lparr> data = Some (sort_key log_date
               (filter (\<lambda>r. user_id r = u \<and> getLocalDateString (setDateBack 7 today) \<le> log_date r)
                  (daily_logs rem))),
             error = None \<rparr>)"
  by (cases "outage rem")
     (simp_all add: getSevenDayAverages_def selectAverageLogs_def Let_def averagesOf_def)

text \<open>
  C3, as stated, fails on the denominator of the zero-filled fields: a record of the
  window whose four selected fields are all absent is dropped before counting.  With
  one record of 40 calories and one record with none of the four fields, the calorie
  average is 40, not 40 / 2.
\<close>

theorem seven_day_averages_counterexample:
  "calories (getSevenDayAverages (Some ''u1'')
     \<lparr> getFullYear = 2024, getMonth = 11, getDate = 25, timeOfDay = 0 \<rparr>
     \<lparr> daily_logs = [
        \<lparr> user_id = ''u1'', log_date = ''2024-12-24'', protein_grams = Some 10,
          carbs_grams = Some 0, fat_grams = Some 0, total_calories = Some 40, sleep_hours = None,
          weight_lbs = None, is_period_day = False, steps = Some 100, energy_rating = None,
          hunger_rating = None, motivation_rating = None, updated_at = ''2024-12-24T09:00:00.000Z'' \<rparr>,
        \<lparr> user_id = ''u1'', log_date = ''2024-12-25'', protein_grams = None,
          carbs_grams = None, fat_grams = None, total_calories = None, sleep_hours = None,
          weight_lbs = Some 150, is_period_day = False, steps = None, energy_rating = None,
          hunger_rating = None, motivation_rating = None, updated_at = ''2024-12-25T09:00:00.000Z'' \<rparr>],
       outage = None \<rparr>) = Some 40
   \<and> spec_zeroFillAverage total_calories [
        \<lparr> user_id = ''u1'', log_date = ''2024-12-24'', protein_grams = Some 10,
          carbs_grams = Some 0, fat_grams = Some 0, total_calories = Some 40, sleep_hours = None,
          weight_lbs = None, is_period_day = False, steps = Some 100, energy_rating = None,
          hunger_rating = None, motivation_rating = None, updated_at = ''2024-12-24T09:00:00.000Z'' \<rparr>,
        \<lparr> user_id = ''u1'', log_date = ''2024-12-25'', protein_grams = None,
          carbs_grams = None, fat_grams = None, total_calories = None, sleep_hours = None,
          weight_lbs = Some 150, is_period_day = False, steps = None, energy_rating = None,
          hunger_rating = None, motivation_rating = None, updated_at = ''2024-12-25T09:00:00.000Z'' \<rparr>]
       = Some 20"
  by code_simp

text \<open>
  C3, amended.  \<open>getSevenDayAverages\<close> averages over the records of the window that
  have at least one of calories, protein, steps and sleep present: calories, protein
  and steps are each the zero-filled mean over those records, and sleep is the mean
  of the logged sleep values over the records where sleep was logged (absent if there
  are none).  Every field is null when the window has no record, when no record of
  it has any of the four fields, when the query fails, and when there is no user.
\<close>

theorem seven_day_averages_amended:
  "averagesOf \<lparr> data = Some rows, error = None \<rparr>
     = (if validRows rows = [] then allNull
        else \<lparr> calories = spec_zeroFillAverage total_calories (validRows rows),
               protein = spec_zeroFillAverage protein_grams (validRows rows),
               SevenDayAverages.steps = spec_zeroFillAverage steps (validRows rows),
               sleep = (if loggedSleep rows = [] then None
                        else Some (sum_list (loggedSleep rows) / real (length (loggedSleep rows)))) \<rparr>)
   \<and> averagesOf \<lparr> data = Some [], error = er \<rparr> = allNull
   \<and> averagesOf \<lparr> data = None, error = er \<rparr> = allNull
   \<and> averagesOf \<lparr> data = dt, error = Some e \<rparr> = allNull
   \<and> getSevenDayAverages None today rem = allNull
   \<and> getSevenDayAverages (Some u) today rem
     = (if outage rem \<noteq> None then allNull
        else averagesOf \<lparr> data = Some (sort_key log_date
               (filter (\<lambda>r. user_id r = u \<and> getLocalDateString (setDateBack 7 today) \<le> log_date r)
                  (daily_logs rem))),
             error = None \<rparr>)
   \<and> allNull = \<lparr> calories = None, protein = None, SevenDayAverages.steps = None, sleep = None \<rparr>"
  using averagesOf_rows [of rows] getSevenDayAverages_window [of u today rem]
  by (simp add: averagesOf_def getSevenDayAverages_def allNull_def validRows_def)

theorem seven_day_averages_amended_witness:
  "getSevenDayAverages (Some ''u1'')
     \<lparr> getFullYear = 2024, getMonth = 11, getDate = 25, timeOfDay = 0 \<rparr>
     \<lparr> daily_logs = [
        \<lparr> user_id = ''u1'', log_date = ''2024-12-23'', protein_grams = Some 10,
          carbs_grams = Some 0, fat_grams = Some 0, total_calories = Some 40, sleep_hours = Some 7,
          weight_lbs = None, is_period_day = False, steps = Some 100, energy_rating = None,
          hunger_rating = None, motivation_rating = None, updated_at = ''2024-12-23T09:00:00.000Z'' \<rparr>,
        \<lparr> user_id = ''u1'', log_date = ''2024-12-24'', protein_grams = Some 20,
          carbs_grams = Some 0, fat_grams = Some 0, total_calories = Some 80, sleep_hours = None,
          weight_lbs = None, is_period_day = False, steps = Some 300, energy_rating = None,
          hunger_rating = None, motivation_rating = None, updated_at = ''2024-12-24T09:00:00.000Z'' \<rparr>],
       outage = None \<rparr>
   = \<lparr> calories = Some 60, protein = Some 15, SevenDayAverages.steps = Some 200, sleep = Some 7 \<rparr>"
proof -
  let ?r1 = "\<lparr> user_id = ''u1'', log_date = ''2024-12-23'', protein_grams = Some 10,
          carbs_grams = Some 0, fat_grams = Some 0, total_calories = Some 40, sleep_hours = Some 7,
          weight_lbs = None, is_period_day = False, steps = Some 100, energy_rating = None,
          hunger_rating = None, motivation_rating = None, updated_at = ''2024-12-23T09:00:00.000Z'' \<rparr>"
  let ?r2 = "\<lparr> user_id = ''u1'', log_date = ''2024-12-24'', protein_grams = Some 20,
          carbs_grams = Some 0, fat_grams = Some 0, total_calories = Some 80, sleep_hours = None,
          weight_lbs = None, is_period_day = False, steps = Some 300, energy_rating = None,
          hunger_rating = None, motivation_rating = None, updated_at = ''2024-12-24T09:00:00.000Z'' \<rparr>"
  let ?today = "\<lparr> getFullYear = 2024, getMonth = 11, getDate = 25, timeOfDay = 0 \<rparr>"
  have w: "getLocalDateString (setDateBack 7 ?today) = ''2024-12-18''"
    by code_simp
  have v: "validRows [?r1, ?r2] = [?r1, ?r2]"
    by (simp add: validRows_def)
  have z: "spec_zeroFillAverage total_calories [?r1, ?r2] = Some 60"
      "spec_zeroFillAverage protein_grams [?r1, ?r2] = Some 15"
      "spec_zeroFillAverage steps [?r1, ?r2] = Some 200"
      "loggedSleep [?r1, ?r2] = [7]"
    by (simp_all add: spec_zeroFillAverage_def orElse_def loggedSleep_def List.map_filter_simps)
  show ?thesis
    using seven_day_averages_amended [where rows = "[?r1, ?r2]" and today = ?today
        and rem = "\<lparr> daily_logs = [?r1, ?r2], outage = None \<rparr>" and u = "''u1''"]
    by (simp add: w v z)
qed

section \<open>Weight history\<close>

lemma getWeightHistory_rows:
  "getWeightHistory (Some u) today parseDate rem days
   = (if outage rem \<noteq> None then []
      else map (weightPoint parseDate) (sort_key log_date
             (filter (\<lambda>r. user_id r = u
                  \<and> getLocalDateString (setDateBack (daysCount days) today) \<le> log_date r
                  \<and> weight_lbs r \<noteq> None) (daily_logs rem))))"
  by (cases "outage rem") (simp_all add: getWeightHistory_def selectWeightLogs_def Let_def)

text \<open>
  C8, as stated, fails on the range: the query bounds the date from below only.  A
  record dated after today, with a weight, is returned.
\<close>

theorem weight_history_counterexample:
  "getWeightHistory (Some ''u1'')
     \<lparr> getFullYear = 2024, getMonth = 11, getDate = 25, timeOfDay = 0 \<rparr>
     (\<lambda>k. \<lparr> getFullYear = 2024, getMonth = 11, getDate = 26, timeOfDay = 0 \<rparr>)
     \<lparr> daily_logs = [\<lparr> user_id = ''u1'', log_date = ''2024-12-26'', protein_grams = Some 0,
          carbs_grams = Some 0, fat_grams = Some 0, total_calories = Some 0, sleep_hours = None,
          weight_lbs = Some 150, is_period_day = False, steps = Some 0, energy_rating = None,
          hunger_rating = None, motivation_rating = None, updated_at = ''2024-12-25T23:30:00.000Z'' \<rparr>],
       outage = None \<rparr> D7
   = [\<lparr> WeightDataPoint.date = ''12/26'', weight = Some 150 \<rparr>]
   \<and> getLocalDateString \<lparr> getFullYear = 2024, getMonth = 11, getDate = 25, timeOfDay = 0 \<rparr> < ''2024-12-26''"
  by code_simp

text \<open>
  C8, amended.  \<open>getWeightHistory\<close> returns one point for each record of the user that
  is dated on or after today minus the window and has a weight, in ascending order of
  the day key, and every point carries a weight; there is no bound at today.  Without a
  user, when the query fails, and when no record qualifies, the result is the empty
  sequence.
\<close>

theorem weight_history_amended:
  "getWeightHistory None today parseDate rem days = []
   \<and> (outage rem \<noteq> None \<longrightarrow> getWeightHistory user today parseDate rem days = [])
   \<and> (outage rem = None \<longrightarrow>
        (\<exists>rows. getWeightHistory (Some u) today parseDate rem days = map (weightPoint parseDate) rows
           \<and> sorted (map log_date rows)
           \<and> set rows = {r \<in> set (daily_logs rem). user_id r = u
                  \<and> getLocalDateString (setDateBack (daysCount days) today) \<le> log_date r
                  \<and> weight_lbs r \<noteq> None}
           \<and> length rows = length (filter (\<lambda>r. user_id r = u
                  \<and> getLocalDateString (setDateBack (daysCount days) today) \<le> log_date r
                  \<and> weight_lbs r \<noteq> None) (daily_logs rem))))
   \<and> list_all (\<lambda>p. weight p \<noteq> None) (getWeightHistory user today parseDate rem days)"
proof -
  let ?P = "\<lambda>r. user_id r = u
                  \<and> getLocalDateString (setDateBack (daysCount days) today) \<le> log_date r
                  \<and> weight_lbs r \<noteq> None"
  let ?rows = "sort_key log_date (filter ?P (daily_logs rem))"
  have a: "getWeightHistory None today parseDate rem days = []"
    by (simp add: getWeightHistory_def)
  have b: "getWeightHistory user today parseDate rem days = []" if "outage rem \<noteq> None"
    using that getWeightHistory_rows [of _ today parseDate rem days] a by (cases user) simp_all
  have c: "\<exists>rows. getWeightHistory (Some u) today parseDate rem days = map (weightPoint parseDate) rows
           \<and> sorted (map log_date rows) \<and> set rows = {r \<in> set (daily_logs rem). ?P r}
           \<and> length rows = length (filter ?P (daily_logs rem))" if "outage rem = None"
  proof (intro exI [of _ ?rows] conjI)
    show "getWeightHistory (Some u) today parseDate rem days = map (weightPoint parseDate) ?rows"
      using that by (simp add: getWeightHistory_rows)
    show "sorted (map log_date ?rows)" by (rule sorted_sort_key)
    show "set ?rows = {r \<in> set (daily_logs rem). ?P r}" by simp
    show "length ?rows = length (filter ?P (daily_logs rem))" by simp
  qed
  have d: "list_all (\<lambda>p. weight p \<noteq> None) (getWeightHistory user today parseDate rem days)"
  proof (cases user)
    case None
    then show ?thesis by (simp add: a)
  next
    case (Some v)
    then show ?thesis
      by (simp add: getWeightHistory_rows [of v] list_all_iff weightPoint_def Let_def)
  qed
  from a b c d show ?thesis by blast
qed

theorem weight_history_amended_witness:
  "outage \<lparr> daily_logs = [
        \<lparr> user_id = ''u1'', log_date = ''2024-12-24'', protein_grams = Some 0,
          carbs_grams = Some 0, fat_grams = Some 0, total_calories = Some 0, sleep_hours = None,
          weight_lbs = Some 150, is_period_day = False, steps = Some 0, energy_rating = None,
          hunger_rating = None, motivation_rating = None, updated_at = ''2024-12-24T09:00:00.000Z'' \<rparr>,
        \<lparr> user_id = ''u2'', log_date = ''2024-12-24'', protein_grams = Some 0,
          carbs_grams = Some 0, fat_grams = Some 0, total_calories = Some 0, sleep_hours = None,
          weight_lbs = Some 180, is_period_day = False, steps = Some 0, energy_rating = None,
          hunger_rating = None, motivation_rating = None, updated_at = ''2024-12-24T10:00:00.000Z'' \<rparr>,
        \<lparr> user_id = ''u1'', log_date = ''2024-12-23'', protein_grams = Some 30,
          carbs_grams = Some 0, fat_grams = Some 0, total_calories = Some 120, sleep_hours = Some 8,
          weight_lbs = None, is_period_day = False, steps = Some 0, energy_rating = None,
          hunger_rating = None, motivation_rating = None, updated_at = ''2024-12-23T09:00:00.000Z'' \<rparr>,
        \<lparr> user_id = ''u1'', log_date = ''2024-12-10'', protein_grams = Some 0,
          carbs_grams = Some 0, fat_grams = Some 0, total_calories = Some 0, sleep_hours = None,
          weight_lbs = Some 149, is_period_day = False, steps = Some 0, energy_rating = None,
          hunger_rating = None, motivation_rating = None, updated_at = ''2024-12-10T09:00:00.000Z'' \<rparr>],
       outage = None \<rparr> = None
   \<and> list_all (\<lambda>p. weight p \<noteq> None)
        (getWeightHistory (Some ''u1'')
           \<lparr> getFullYear = 2024, getMonth = 11, getDate = 25, timeOfDay = 0 \<rparr>
           (\<lambda>k. \<lparr> getFullYear = 2024, getMonth = 11, getDate = 24, timeOfDay = 0 \<rparr>)
           \<lparr> daily_logs = [
        \<lparr> user_id = ''u1'', log_date = ''2024-12-24'', protein_grams = Some 0,
          carbs_grams = Some 0, fat_grams = Some 0, total_calories = Some 0, sleep_hours = None,
          weight_lbs = Some 150, is_period_day = False, steps = Some 0, energy_rating = None,
          hunger_rating = None, motivation_rating = None, updated_at = ''2024-12-24T09:00:00.000Z'' \<rparr>,
        \<lparr> user_id = ''u2'', log_date = ''2024-12-24'', protein_grams = Some 0,
          carbs_grams = Some 0, fat_grams = Some 0, total_calories = Some 0, sleep_hours = None,
          weight_lbs = Some 180, is_period_day = False, steps = Some 0, energy_rating = None,
          hunger_rating = None, motivation_rating = None, updated_at = ''2024-12-24T10:00:00.000Z'' \<rparr>,
        \<lparr> user_id = ''u1'', log_date = ''2024-12-23'', protein_grams = Some 30,
          carbs_grams = Some 0, fat_grams = Some 0, total_calories = Some 120, sleep_hours = Some 8,
          weight_lbs = None, is_period_day = False, steps = Some 0, energy_rating = None,
          hunger_rating = None, motivation_rating = None, updated_at = ''2024-12-23T09:00:00.000Z'' \<rparr>,
        \<lparr> user_id = ''u1'', log_date = ''2024-12-10'', protein_grams = Some 0,
          carbs_grams = Some 0, fat_grams = Some 0, total_calories = Some 0, sleep_hours = None,
          weight_lbs = Some 149, is_period_day = False, steps = Some 0, energy_rating = None,
          hunger_rating = None, motivation_rating = None, updated_at = ''2024-12-10T09:00:00.000Z'' \<rparr>],
       outage = None \<rparr> D7)
   \<and> getWeightHistory (Some ''u1'')
           \<lparr> getFullYear = 2024, getMonth = 11, getDate = 25, timeOfDay = 0 \<rparr>
           (\<lambda>k. \<lparr> getFullYear = 2024, getMonth = 11, getDate = 24, timeOfDay = 0 \<rparr>)
           \<lparr> daily_logs = [
        \<lparr> user_id = ''u1'', log_date = ''2024-12-24'', protein_grams = Some 0,
          carbs_grams = Some 0, fat_grams = Some 0, total_calories = Some 0, sleep_hours = None,
          weight_lbs = Some 150, is_period_day = False, steps = Some 0, energy_rating = None,
          hunger_rating = None, motivation_rating = None, updated_at = ''2024-12-24T09:00:00.000Z'' \<rparr>,
        \<lparr> user_id = ''u2'', log_date = ''2024-12-24'', protein_grams = Some 0,
          carbs_grams = Some 0, fat_grams = Some 0, total_calories = Some 0, sleep_hours = None,
          weight_lbs = Some 180, is_period_day = False, steps = Some 0, energy_rating = None,
          hunger_rating = None, motivation_rating = None, updated_at = ''2024-12-24T10:00:00.000Z'' \<rparr>,
        \<lparr> user_id = ''u1'', log_date = ''2024-12-23'', protein_grams = Some 30,
          carbs_grams = Some 0, fat_grams = Some 0, total_calories = Some 120, sleep_hours = Some 8,
          weight_lbs = None, is_period_day = False, steps = Some 0, energy_rating = None,
          hunger_rating = None, motivation_rating = None, updated_at = ''2024-12-23T09:00:00.000Z'' \<rparr>,
        \<lparr> user_id = ''u1'', log_date = ''2024-12-10'', protein_grams = Some 0,
          carbs_grams = Some 0, fat_grams = Some 0, total_calories = Some 0, sleep_hours = None,
          weight_lbs = Some 149, is_period_day = False, steps = Some 0, energy_rating = None,
          hunger_rating = None, motivation_rating = None, updated_at = ''2024-12-10T09:00:00.000Z'' \<rparr>],
       outage = None \<rparr> D7
       = [\<lparr> WeightDataPoint.date = ''12/24'', weight = Some 150 \<rparr>]"
proof (intro conjI)
  show "list_all (\<lambda>p. weight p \<noteq> None)
        (getWeightHistory (Some ''u1'')
           \<lparr> getFullYear = 2024, getMonth = 11, getDate = 25, timeOfDay = 0 \<rparr>
           (\<lambda>k. \<lparr> getFullYear = 2024, getMonth = 11, getDate = 24, timeOfDay = 0 \<rparr>)
           \<lparr> daily_logs = [
        \<lparr> user_id = ''u1'', log_date = ''2024-12-24'', protein_grams = Some 0,
          carbs_grams = Some 0, fat_grams = Some 0, total_calories = Some 0, sleep_hours = None,
          weight_lbs = Some 150, is_period_day = False, steps = Some 0, energy_rating = None,
          hunger_rating = None, motivation_rating = None, updated_at = ''2024-12-24T09:00:00.000Z'' \<rparr>,
        \<lparr> user_id = ''u2'', log_date = ''2024-12-24'', protein_grams = Some 0,
          carbs_grams = Some 0, fat_grams = Some 0, total_calories = Some 0, sleep_hours = None,
          weight_lbs = Some 180, is_period_day = False, steps = Some 0, energy_rating = None,
          hunger_rating = None, motivation_rating = None, updated_at = ''2024-12-24T10:00:00.000Z'' \<rparr>,
        \<lparr> user_id = ''u1'', log_date = ''2024-12-23'', protein_grams = Some 30,
          carbs_grams = Some 0, fat_grams = Some 0, total_calories = Some 120, sleep_hours = Some 8,
          weight_lbs = None, is_period_day = False, steps = Some 0, energy_rating = None,
          hunger_rating = None, motivation_rating = None, updated_at = ''2024-12-23T09:00:00.000Z'' \<rparr>,
        \<lparr> user_id = ''u1'', log_date = ''2024-12-10'', protein_grams = Some 0,
          carbs_grams = Some 0, fat_grams = Some 0, total_calories = Some 0, sleep_hours = None,
          weight_lbs = Some 149, is_period_day = False, steps = Some 0, energy_rating = None,
          hunger_rating = None, motivation_rating = None, updated_at = ''2024-12-10T09:00:00.000Z'' \<rparr>],
       outage = None \<rparr> D7)"
    using weight_history_amended by blast
qed (simp, code_simp)

end
